theory Spec2Isabelle
  imports Complex_Main "HOL-Library.Monad_Syntax"
begin

section \<open>JavaScript numbers\<close>

text \<open>
  The compositor computes with JavaScript numbers, which are IEEE doubles. A finite
  double is modelled as the real number it denotes, and the two infinities and NaN are
  added, so that a division by zero and a loop bound of \<open>Infinity\<close> are values of the
  model. The arithmetic of the platform is a parameter of the model (the fields \<open>fl\<close>,
  \<open>Math_cos\<close>, \<open>Math_sin\<close> and \<open>Math_PI\<close> of the backend below): \<open>fl\<close> rounds an
  exact real result to a double. It is applied wherever the last digit decides how many
  cells are stamped or whether the loops end: the angle, the rotated bounding box, the
  spacing gap, the cell size, the two quotients under \<open>Math.ceil\<close>, \<open>cols\<close> and
  \<open>rows\<close>, and the increments of the loop counters. The coordinates handed to the
  canvas (the start of the grid, the cell centres, the single-mode anchor and angle)
  are computed exactly from these values; the doubles of the source are within
  rounding of them.
  Zero carries no sign; the only divisors that can be zero in the source are
  \<open>cellWidth\<close> and \<open>cellHeight\<close>, which are sums that round to \<open>+0\<close>, so a zero
  divisor is read as \<open>+0\<close>.
\<close>

datatype jsnum = Num real | PosInf | NegInf | NaN

fun jneg :: "jsnum \<Rightarrow> jsnum" where
  "jneg (Num a) = Num (- a)"
| "jneg PosInf = NegInf"
| "jneg NegInf = PosInf"
| "jneg NaN = NaN"

fun jadd :: "jsnum \<Rightarrow> jsnum \<Rightarrow> jsnum" where
  "jadd (Num a) (Num b) = Num (a + b)"
| "jadd NaN _ = NaN"
| "jadd _ NaN = NaN"
| "jadd PosInf NegInf = NaN"
| "jadd NegInf PosInf = NaN"
| "jadd PosInf _ = PosInf"
| "jadd _ PosInf = PosInf"
| "jadd NegInf _ = NegInf"
| "jadd _ NegInf = NegInf"

definition jsub :: "jsnum \<Rightarrow> jsnum \<Rightarrow> jsnum" where
  "jsub a b = jadd a (jneg b)"

definition inf_of_sign :: "real \<Rightarrow> jsnum" where
  "inf_of_sign s = (if s = 0 then NaN else if 0 < s then PosInf else NegInf)"

fun jmul :: "jsnum \<Rightarrow> jsnum \<Rightarrow> jsnum" where
  "jmul (Num a) (Num b) = Num (a * b)"
| "jmul NaN _ = NaN"
| "jmul _ NaN = NaN"
| "jmul (Num a) PosInf = inf_of_sign a"
| "jmul (Num a) NegInf = inf_of_sign (- a)"
| "jmul PosInf (Num b) = inf_of_sign b"
| "jmul NegInf (Num b) = inf_of_sign (- b)"
| "jmul PosInf PosInf = PosInf"
| "jmul NegInf NegInf = PosInf"
| "jmul PosInf NegInf = NegInf"
| "jmul NegInf PosInf = NegInf"

fun jdiv :: "jsnum \<Rightarrow> jsnum \<Rightarrow> jsnum" where
  "jdiv (Num a) (Num b) = (if b = 0 then inf_of_sign a else Num (a / b))"
| "jdiv NaN _ = NaN"
| "jdiv _ NaN = NaN"
| "jdiv (Num a) _ = Num 0"
| "jdiv PosInf (Num b) = (if 0 \<le> b then PosInf else NegInf)"
| "jdiv NegInf (Num b) = (if 0 \<le> b then NegInf else PosInf)"
| "jdiv _ _ = NaN"

fun jceil :: "jsnum \<Rightarrow> jsnum" where
  "jceil (Num a) = Num (of_int \<lceil>a\<rceil>)"
| "jceil x = x"

fun jround :: "(real \<Rightarrow> real) \<Rightarrow> jsnum \<Rightarrow> jsnum" where
  "jround f (Num a) = Num (f a)"
| "jround f x = x"

fun jlt :: "jsnum \<Rightarrow> jsnum \<Rightarrow> bool" where
  "jlt (Num a) (Num b) = (a < b)"
| "jlt (Num a) PosInf = True"
| "jlt NegInf (Num b) = True"
| "jlt NegInf PosInf = True"
| "jlt _ _ = False"

section \<open>The canvas\<close>

text \<open>
  A 2D canvas is its size, the drawing state of its context (font, fill style, alpha,
  current transformation matrix), the stack of saved states and the list of what has
  been painted, in painting order. A matrix \<open>Matrix a b c d e f\<close> maps \<open>(x, y)\<close> to
  \<open>(a x + c y + e, b x + d y + f)\<close>; \<open>translate\<close> and \<open>rotate\<close> multiply the current
  matrix on the right, and \<open>translate\<close> with an argument that is not finite does nothing.
\<close>

datatype matrix = Matrix real real real real real real

fun mmul :: "matrix \<Rightarrow> matrix \<Rightarrow> matrix" where
  "mmul (Matrix a1 b1 c1 d1 e1 f1) (Matrix a2 b2 c2 d2 e2 f2) =
     Matrix (a1 * a2 + c1 * b2) (b1 * a2 + d1 * b2)
            (a1 * c2 + c1 * d2) (b1 * c2 + d1 * d2)
            (a1 * e2 + c1 * f2 + e1) (b1 * e2 + d1 * f2 + f1)"

definition identity :: matrix where
  "identity = Matrix 1 0 0 1 0 0"

definition translation :: "real \<Rightarrow> real \<Rightarrow> matrix" where
  "translation tx ty = Matrix 1 0 0 1 tx ty"

definition rotation_matrix :: "real \<Rightarrow> matrix" where
  "rotation_matrix a = Matrix (cos a) (sin a) (- sin a) (cos a) 0 0"

fun apply_matrix :: "matrix \<Rightarrow> real \<times> real \<Rightarrow> real \<times> real" where
  "apply_matrix (Matrix a b c d e f) (x, y) = (a * x + c * y + e, b * x + d * y + f)"

record HTMLImageElement =
  width :: nat
  height :: nat
  src :: string

datatype font = Font real string

record drawing_state =
  font :: font
  fillStyle :: string
  globalAlpha :: real
  transform :: matrix

datatype painted =
    DrawImage HTMLImageElement real real drawing_state
  | FillText string real real drawing_state

record canvas =
  canvas_width :: nat
  canvas_height :: nat
  state :: drawing_state
  saved :: "drawing_state list"
  paint :: "painted list"

definition createCanvas :: canvas where
  "createCanvas =
     \<lparr>canvas_width = 300, canvas_height = 150,
      state = \<lparr>font = Font 10 ''sans-serif'', fillStyle = ''#000000'',
               globalAlpha = 1, transform = identity\<rparr>,
      saved = [], paint = []\<rparr>"

definition drawImage :: "HTMLImageElement \<Rightarrow> real \<Rightarrow> real \<Rightarrow> canvas \<Rightarrow> canvas" where
  "drawImage img x y cv = cv\<lparr>paint := paint cv @ [DrawImage img x y (state cv)]\<rparr>"

definition fillText :: "string \<Rightarrow> real \<Rightarrow> real \<Rightarrow> canvas \<Rightarrow> canvas" where
  "fillText t x y cv = cv\<lparr>paint := paint cv @ [FillText t x y (state cv)]\<rparr>"

definition save :: "canvas \<Rightarrow> canvas" where
  "save cv = cv\<lparr>saved := state cv # saved cv\<rparr>"

definition restore :: "canvas \<Rightarrow> canvas" where
  "restore cv = (case saved cv of [] \<Rightarrow> cv | s # ss \<Rightarrow> cv\<lparr>state := s, saved := ss\<rparr>)"

definition transform_by :: "matrix \<Rightarrow> canvas \<Rightarrow> canvas" where
  "transform_by m cv = cv\<lparr>state := (state cv)\<lparr>transform := mmul (transform (state cv)) m\<rparr>\<rparr>"

definition translate :: "jsnum \<Rightarrow> jsnum \<Rightarrow> canvas \<Rightarrow> canvas" where
  "translate tx ty cv =
     (case tx of
        Num x \<Rightarrow> (case ty of Num y \<Rightarrow> transform_by (translation x y) cv | _ \<Rightarrow> cv)
      | _ \<Rightarrow> cv)"

definition rotate :: "real \<Rightarrow> canvas \<Rightarrow> canvas" where
  "rotate a cv = transform_by (rotation_matrix a) cv"

section \<open>Options and the backend\<close>

datatype position = Center | TopLeft | TopRight | BottomLeft | BottomRight

datatype mode = Single | Tile

record WatermarkOptions =
  wtext :: string
  fontSize :: real
  color :: string
  opacity :: real
  position :: position
  rotation :: real
  mode :: mode
  spacing :: real
  offsetX :: real
  offsetY :: real

datatype ImageFormat = Png | Jpeg | Webp

record ExportOptions =
  format :: ImageFormat
  quality :: "real option"

text \<open>
  What the platform supplies. The glyph metrics of \<open>ctx.measureText\<close> (the width of a
  text in a font). The encoder behind \<open>canvas.toDataURL\<close> (MIME type and optional
  quality), which may throw: a tainted canvas gives a \<open>SecurityError\<close>. Whether
  \<open>canvas.getContext('2d')\<close> returns a context: with \<open>null\<close> the first use of
  \<open>ctx\<close> throws a \<open>TypeError\<close>. Whether \<open>ctx.drawImage\<close> throws for the image (an
  \<open>InvalidStateError\<close> for a broken image). And the arithmetic: the rounding \<open>fl\<close> of
  an exact result to a double, \<open>Math.cos\<close>, \<open>Math.sin\<close> and \<open>Math.PI\<close>.
\<close>

datatype exception = JsTypeError | InvalidStateError | SecurityError

record backend =
  measureText :: "font \<Rightarrow> string \<Rightarrow> real"
  toDataURL :: "canvas \<Rightarrow> string \<Rightarrow> real option \<Rightarrow> exception + string"
  has_context :: bool
  drawImage_throws :: "HTMLImageElement \<Rightarrow> exception option"
  fl :: "real \<Rightarrow> real"
  Math_cos :: "real \<Rightarrow> real"
  Math_sin :: "real \<Rightarrow> real"
  Math_PI :: real

text \<open>
  How a promise is settled. An exception thrown inside the executor rejects the promise
  with it; \<open>EncodingError\<close> and \<open>DegenerateTilingError\<close> are the typed errors of the
  specification.
\<close>

datatype error = Thrown exception | EncodingError | DegenerateTilingError

datatype 'a settled = Resolved 'a | Rejected error

section \<open>Loops\<close>

text \<open>
  \<open>for (let i = start; i < bound; i++) body\<close>. The counter and the bound are
  JavaScript numbers and \<open>i++\<close> is a rounded addition. The loop does not return when
  the bound is \<open>Infinity\<close>, nor when the counter reaches a value below the bound that
  \<open>i + 1\<close> rounds back to: the value is \<open>None\<close> then.
\<close>

partial_function (option) for_loop ::
  "(real \<Rightarrow> real) \<Rightarrow> jsnum \<Rightarrow> (real \<Rightarrow> 's \<Rightarrow> 's option) \<Rightarrow> real \<Rightarrow> 's \<Rightarrow> 's option" where
  "for_loop f bound body i s =
     (if jlt (Num i) bound
      then Option.bind (body i s) (\<lambda>s'. for_loop f bound body (f (i + 1)) s')
      else Some s)"

section \<open>addWatermark: tile mode\<close>

definition angle :: "backend \<Rightarrow> WatermarkOptions \<Rightarrow> real" where
  "angle be options = fl be (fl be (rotation options * Math_PI be) / 180)"

definition rotatedWidth :: "backend \<Rightarrow> real \<Rightarrow> WatermarkOptions \<Rightarrow> real" where
  "rotatedWidth be textWidth options =
     fl be (fl be (textWidth * \<bar>Math_cos be (angle be options)\<bar>) +
            fl be (fontSize options * \<bar>Math_sin be (angle be options)\<bar>))"

definition rotatedHeight :: "backend \<Rightarrow> real \<Rightarrow> WatermarkOptions \<Rightarrow> real" where
  "rotatedHeight be textWidth options =
     fl be (fl be (textWidth * \<bar>Math_sin be (angle be options)\<bar>) +
            fl be (fontSize options * \<bar>Math_cos be (angle be options)\<bar>))"

definition spacingGap :: "backend \<Rightarrow> real \<Rightarrow> WatermarkOptions \<Rightarrow> real" where
  "spacingGap be textWidth options =
     fl be (rotatedWidth be textWidth options * fl be (spacing options / 100))"

definition cellWidth :: "backend \<Rightarrow> real \<Rightarrow> WatermarkOptions \<Rightarrow> real" where
  "cellWidth be textWidth options =
     fl be (rotatedWidth be textWidth options + spacingGap be textWidth options)"

definition cellHeight :: "backend \<Rightarrow> real \<Rightarrow> WatermarkOptions \<Rightarrow> real" where
  "cellHeight be textWidth options =
     fl be (rotatedHeight be textWidth options + spacingGap be textWidth options)"

definition cols :: "backend \<Rightarrow> nat \<Rightarrow> real \<Rightarrow> WatermarkOptions \<Rightarrow> jsnum" where
  "cols be w textWidth options =
     jround (fl be)
       (jadd (jceil (jround (fl be) (jdiv (Num (real w)) (Num (cellWidth be textWidth options)))))
             (Num 2))"

definition rows :: "backend \<Rightarrow> nat \<Rightarrow> real \<Rightarrow> WatermarkOptions \<Rightarrow> jsnum" where
  "rows be h textWidth options =
     jround (fl be)
       (jadd (jceil (jround (fl be) (jdiv (Num (real h)) (Num (cellHeight be textWidth options)))))
             (Num 2))"

definition offsetXPixels :: "nat \<Rightarrow> WatermarkOptions \<Rightarrow> real" where
  "offsetXPixels w options = real w * (offsetX options / 100)"

definition offsetYPixels :: "nat \<Rightarrow> WatermarkOptions \<Rightarrow> real" where
  "offsetYPixels h options = real h * (offsetY options / 100)"

definition startX :: "backend \<Rightarrow> nat \<Rightarrow> real \<Rightarrow> WatermarkOptions \<Rightarrow> jsnum" where
  "startX be w textWidth options =
     jadd (jdiv (jsub (Num (real w))
                      (jmul (jsub (cols be w textWidth options) (Num 1))
                            (Num (cellWidth be textWidth options))))
                (Num 2))
          (Num (offsetXPixels w options))"

definition startY :: "backend \<Rightarrow> nat \<Rightarrow> real \<Rightarrow> WatermarkOptions \<Rightarrow> jsnum" where
  "startY be h textWidth options =
     jadd (jdiv (jsub (Num (real h))
                      (jmul (jsub (rows be h textWidth options) (Num 1))
                            (Num (cellHeight be textWidth options))))
                (Num 2))
          (Num (offsetYPixels h options))"

definition centerX :: "backend \<Rightarrow> nat \<Rightarrow> real \<Rightarrow> WatermarkOptions \<Rightarrow> real \<Rightarrow> jsnum" where
  "centerX be w textWidth options col =
     jadd (jadd (startX be w textWidth options)
                (jmul (Num col) (Num (cellWidth be textWidth options))))
          (jdiv (Num (rotatedWidth be textWidth options)) (Num 2))"

definition centerY :: "backend \<Rightarrow> nat \<Rightarrow> real \<Rightarrow> WatermarkOptions \<Rightarrow> real \<Rightarrow> jsnum" where
  "centerY be h textWidth options row =
     jadd (jadd (startY be h textWidth options)
                (jmul (Num row) (Num (cellHeight be textWidth options))))
          (jdiv (Num (rotatedHeight be textWidth options)) (Num 2))"

text \<open>
  The body of the inner loop: one stamp, between \<open>save\<close> and \<open>restore\<close>. The
  arguments \<open>w\<close> and \<open>h\<close> are \<open>canvas.width\<close> and \<open>canvas.height\<close>, read before
  the loops.
\<close>

definition tile_stamp ::
  "backend \<Rightarrow> nat \<Rightarrow> nat \<Rightarrow> real \<Rightarrow> WatermarkOptions \<Rightarrow> real \<Rightarrow> real \<Rightarrow> canvas \<Rightarrow> canvas" where
  "tile_stamp be w h textWidth options row col cv =
     restore
       (fillText (wtext options) (- textWidth / 2) (fontSize options / 4)
         (rotate (angle be options)
           (translate (centerX be w textWidth options col) (centerY be h textWidth options row)
             (save cv))))"

definition tile_row ::
  "backend \<Rightarrow> nat \<Rightarrow> nat \<Rightarrow> real \<Rightarrow> WatermarkOptions \<Rightarrow> real \<Rightarrow> canvas \<Rightarrow> canvas option" where
  "tile_row be w h textWidth options row cv =
     for_loop (fl be) (cols be w textWidth options)
       (\<lambda>col c. Some (tile_stamp be w h textWidth options row col c)) (- 1) cv"

definition tile_watermark ::
  "backend \<Rightarrow> real \<Rightarrow> WatermarkOptions \<Rightarrow> canvas \<Rightarrow> canvas option" where
  "tile_watermark be textWidth options cv =
     for_loop (fl be) (rows be (canvas_height cv) textWidth options)
       (tile_row be (canvas_width cv) (canvas_height cv) textWidth options) (- 1) cv"

section \<open>addWatermark: single mode\<close>

definition base_position :: "real \<Rightarrow> WatermarkOptions \<Rightarrow> canvas \<Rightarrow> real \<times> real" where
  "base_position textWidth options cv =
     (case position options of
        Center \<Rightarrow> ((real (canvas_width cv) - textWidth) / 2,
                   (real (canvas_height cv) + fontSize options) / 2)
      | TopLeft \<Rightarrow> (20, 20 + fontSize options)
      | TopRight \<Rightarrow> (real (canvas_width cv) - textWidth - 20, 20 + fontSize options)
      | BottomLeft \<Rightarrow> (20, real (canvas_height cv) - 20)
      | BottomRight \<Rightarrow> (real (canvas_width cv) - textWidth - 20, real (canvas_height cv) - 20))"

definition single_watermark :: "real \<Rightarrow> WatermarkOptions \<Rightarrow> canvas \<Rightarrow> canvas" where
  "single_watermark textWidth options cv =
     (let textHeight = fontSize options;
          x = fst (base_position textWidth options cv) + offsetXPixels (canvas_width cv) options;
          y = snd (base_position textWidth options cv) + offsetYPixels (canvas_height cv) options;
          c1 = save cv;
          c2 = translate (Num (x + textWidth / 2)) (Num (y - textHeight / 2)) c1;
          c3 = rotate ((rotation options * pi) / 180) c2;
          c4 = translate (Num (- (x + textWidth / 2))) (Num (- (y - textHeight / 2))) c3;
          c5 = fillText (wtext options) x y c4
      in restore c5)"

section \<open>addWatermark\<close>

text \<open>
  \<open>render\<close> is the drawing of the executor, given a context and an image that
  \<open>drawImage\<close> accepts: the canvas as it is when the executor reaches \<open>toDataURL\<close>;
  \<open>None\<close> when the tile loops do not return.
\<close>

definition prepare :: "HTMLImageElement \<Rightarrow> WatermarkOptions \<Rightarrow> canvas" where
  "prepare img options =
     (let c0 = createCanvas\<lparr>canvas_width := width img, canvas_height := height img\<rparr>;
          c1 = drawImage img 0 0 c0
      in c1\<lparr>state := (state c1)\<lparr>font := Font (fontSize options) ''Arial'',
                                 fillStyle := color options,
                                 globalAlpha := opacity options\<rparr>\<rparr>)"

definition render :: "backend \<Rightarrow> HTMLImageElement \<Rightarrow> WatermarkOptions \<Rightarrow> canvas option" where
  "render be img options =
     (let cv = prepare img options;
          textWidth = measureText be (font (state cv)) (wtext options)
      in if mode options = Tile
         then tile_watermark be textWidth options cv
         else Some (single_watermark textWidth options cv))"

definition export_format :: "ExportOptions option \<Rightarrow> ImageFormat" where
  "export_format exportOptions = (case exportOptions of None \<Rightarrow> Png | Some e \<Rightarrow> format e)"

definition export_quality :: "ExportOptions option \<Rightarrow> real" where
  "export_quality exportOptions =
     (case exportOptions of
        None \<Rightarrow> 0.92
      | Some e \<Rightarrow> (case quality e of None \<Rightarrow> 0.92 | Some q \<Rightarrow> if q = 0 then 0.92 else q))"

definition mimeType :: "ImageFormat \<Rightarrow> string" where
  "mimeType f = (case f of Jpeg \<Rightarrow> ''image/jpeg'' | Webp \<Rightarrow> ''image/webp'' | Png \<Rightarrow> ''image/png'')"

definition encode :: "backend \<Rightarrow> ExportOptions option \<Rightarrow> canvas \<Rightarrow> exception + string" where
  "encode be exportOptions cv =
     (if export_format exportOptions = Png
      then toDataURL be cv (mimeType (export_format exportOptions)) None
      else toDataURL be cv (mimeType (export_format exportOptions))
             (Some (export_quality exportOptions)))"

text \<open>
  The executor ends with \<open>resolve(dataUrl)\<close> and never calls \<open>reject\<close>; an exception
  thrown on the way (at \<open>ctx.drawImage\<close>, the first use of the context, or at
  \<open>toDataURL\<close>) rejects the promise. \<open>None\<close>: the executor does not return and the
  promise is never settled.
\<close>

definition settle :: "exception + string \<Rightarrow> string settled" where
  "settle r = (case r of Inl e \<Rightarrow> Rejected (Thrown e) | Inr dataUrl \<Rightarrow> Resolved dataUrl)"

definition addWatermark ::
  "backend \<Rightarrow> HTMLImageElement \<Rightarrow> WatermarkOptions \<Rightarrow> ExportOptions option
     \<Rightarrow> string settled option" where
  "addWatermark be img options exportOptions =
     (if \<not> has_context be then Some (Rejected (Thrown JsTypeError))
      else case drawImage_throws be img of
             Some e \<Rightarrow> Some (Rejected (Thrown e))
           | None \<Rightarrow>
               map_option (\<lambda>cv. settle (encode be exportOptions cv)) (render be img options))"

section \<open>What a painted text looks like on the canvas\<close>

text \<open>
  A text painted at \<open>(x, y)\<close> under the current transformation matrix \<open>M\<close> has its
  anchor and its axes placed by \<open>M\<close> composed with the translation to \<open>(x, y)\<close>. Two
  \<open>fillText\<close> calls with the same text, style and frame paint the same pixels.
\<close>

fun glyph_frame :: "painted \<Rightarrow> matrix" where
  "glyph_frame (FillText t x y st) = mmul (transform st) (translation x y)"
| "glyph_frame (DrawImage i x y st) = mmul (transform st) (translation x y)"

fun stamp_view :: "painted \<Rightarrow> (string \<times> matrix) option" where
  "stamp_view (FillText t x y st) = Some (t, glyph_frame (FillText t x y st))"
| "stamp_view (DrawImage i x y st) = None"

fun is_fillText :: "painted \<Rightarrow> bool" where
  "is_fillText (FillText t x y st) = True"
| "is_fillText (DrawImage i x y st) = False"

definition stamp_count :: "canvas \<Rightarrow> nat" where
  "stamp_count cv = length (filter is_fillText (paint cv))"

fun is_resolved :: "'a settled \<Rightarrow> bool" where
  "is_resolved (Resolved v) = True"
| "is_resolved (Rejected e) = False"

text \<open>The rotation by \<open>a\<close> about the point \<open>(cx, cy)\<close>, as a matrix.\<close>

definition rotate_about :: "real \<times> real \<Rightarrow> real \<Rightarrow> matrix" where
  "rotate_about c a =
     Matrix (cos a) (sin a) (- sin a) (cos a)
            (fst c - fst c * cos a + snd c * sin a)
            (snd c - fst c * sin a - snd c * cos a)"

section \<open>The algorithms as the specification words them\<close>

text \<open>
  Tile mode, steps 1 to 6 of the specification, in the arithmetic of the platform:
  \<open>W\<close>, \<open>H\<close> the image size, \<open>textWidth\<close> the measured width, \<open>textHeight\<close> the font
  size.
\<close>

record tile_plan =
  theta :: real
  rotated_width :: real
  rotated_height :: real
  spacing_gap :: real
  cell_width :: real
  cell_height :: real
  n_cols :: int
  n_rows :: int
  start_x :: real
  start_y :: real

definition spec_tile_plan ::
  "backend \<Rightarrow> real \<Rightarrow> real \<Rightarrow> real \<Rightarrow> real \<Rightarrow> real \<Rightarrow> real \<Rightarrow> real \<Rightarrow> real \<Rightarrow> tile_plan" where
  "spec_tile_plan be W H textWidth textHeight rotationDeg spacingPercent offsetXPercent
       offsetYPercent =
     (let th = fl be (fl be (rotationDeg * Math_PI be) / 180);
          rw = fl be (fl be (textWidth * \<bar>Math_cos be th\<bar>) + fl be (textHeight * \<bar>Math_sin be th\<bar>));
          rh = fl be (fl be (textWidth * \<bar>Math_sin be th\<bar>) + fl be (textHeight * \<bar>Math_cos be th\<bar>));
          gap = fl be (rw * fl be (spacingPercent / 100));
          cw = fl be (rw + gap);
          ch = fl be (rh + gap);
          nc = \<lceil>fl be (W / cw)\<rceil> + 2;
          nr = \<lceil>fl be (H / ch)\<rceil> + 2
      in \<lparr>theta = th, rotated_width = rw, rotated_height = rh, spacing_gap = gap,
          cell_width = cw, cell_height = ch, n_cols = nc, n_rows = nr,
          start_x = (W - (of_int nc - 1) * cw) / 2 + offsetXPercent / 100 * W,
          start_y = (H - (of_int nr - 1) * ch) / 2 + offsetYPercent / 100 * H\<rparr>)"

definition spec_cell_center :: "tile_plan \<Rightarrow> int \<Rightarrow> int \<Rightarrow> real \<times> real" where
  "spec_cell_center p row col =
     (start_x p + of_int col * cell_width p + rotated_width p / 2,
      start_y p + of_int row * cell_height p + rotated_height p / 2)"

text \<open>
  One stamp: the text, anchored \<open>(- textWidth / 2, + textHeight / 4)\<close> away from the
  cell centre, in the frame rotated by \<open>theta\<close> about that centre.
\<close>

definition spec_tile_stamp ::
  "tile_plan \<Rightarrow> string \<Rightarrow> real \<Rightarrow> real \<Rightarrow> int \<Rightarrow> int \<Rightarrow> string \<times> matrix" where
  "spec_tile_stamp p t textWidth textHeight row col =
     (t, mmul (rotate_about (spec_cell_center p row col) (theta p))
              (translation (fst (spec_cell_center p row col) - textWidth / 2)
                           (snd (spec_cell_center p row col) + textHeight / 4)))"

definition spec_tile_stamps ::
  "tile_plan \<Rightarrow> string \<Rightarrow> real \<Rightarrow> real \<Rightarrow> (string \<times> matrix) list" where
  "spec_tile_stamps p t textWidth textHeight =
     concat (map (\<lambda>row. map (\<lambda>col. spec_tile_stamp p t textWidth textHeight row col)
                             [- 1..n_cols p - 1])
                 [- 1..n_rows p - 1])"

text \<open>Single mode, steps 1 to 4 of the specification.\<close>

fun spec_anchor :: "position \<Rightarrow> real \<Rightarrow> real \<Rightarrow> real \<Rightarrow> real \<Rightarrow> real \<times> real" where
  "spec_anchor Center W H textWidth textHeight = ((W - textWidth) / 2, (H + textHeight) / 2)"
| "spec_anchor TopLeft W H textWidth textHeight = (20, 20 + textHeight)"
| "spec_anchor TopRight W H textWidth textHeight = (W - textWidth - 20, 20 + textHeight)"
| "spec_anchor BottomLeft W H textWidth textHeight = (20, H - 20)"
| "spec_anchor BottomRight W H textWidth textHeight = (W - textWidth - 20, H - 20)"

definition spec_shifted_anchor ::
  "position \<Rightarrow> real \<Rightarrow> real \<Rightarrow> real \<Rightarrow> real \<Rightarrow> real \<Rightarrow> real \<Rightarrow> real \<times> real" where
  "spec_shifted_anchor pos W H textWidth textHeight offsetXPercent offsetYPercent =
     (fst (spec_anchor pos W H textWidth textHeight) + offsetXPercent / 100 * W,
      snd (spec_anchor pos W H textWidth textHeight) + offsetYPercent / 100 * H)"

definition spec_single_stamp ::
  "string \<Rightarrow> real \<times> real \<Rightarrow> real \<Rightarrow> real \<Rightarrow> real \<Rightarrow> string \<times> matrix" where
  "spec_single_stamp t xy textWidth textHeight rotationDeg =
     (t, mmul (rotate_about (fst xy + textWidth / 2, snd xy - textHeight / 2)
                            (rotationDeg * pi / 180))
              (translation (fst xy) (snd xy)))"

section \<open>loadImage\<close>

text \<open>
  The decoder talks to three collaborators: the \<open>heic2any\<close> conversion, the
  \<open>FileReader\<close> and the image element that decodes a data URL. Each is a function of
  the environment (\<open>None\<close> where it fails), and \<open>loadImage\<close> returns the calls it
  made, in order, with its outcome. File names and MIME types are byte strings;
  \<open>toLowerCase\<close> acts on the ASCII letters, which is all that the two suffix tests
  can see.
\<close>

record Blob =
  blob_type :: string
  blob_bytes :: string

record File =
  name :: string
  type :: string
  bytes :: string

datatype file_or_blob = AFile File | ABlob Blob

record heic_request =
  blob :: File
  toType :: string
  conversion_quality :: real

datatype heic_result = OneBlob Blob | BlobArray "Blob list"

datatype call = Heic2any heic_request | ReadAsDataURL file_or_blob | SetSrc string

datatype load_error = HeicConversionFailed | FileReadFailed | ImageLoadFailed | TypeError

record loader =
  heic2any :: "heic_request \<Rightarrow> heic_result option"
  readAsDataURL :: "file_or_blob \<Rightarrow> string option"
  decodeImage :: "string \<Rightarrow> HTMLImageElement option"

definition lower_char :: "char \<Rightarrow> char" where
  "lower_char c =
     (if 65 \<le> (of_char c :: nat) \<and> (of_char c :: nat) \<le> 90
      then char_of ((of_char c :: nat) + 32) else c)"

definition toLowerCase :: "string \<Rightarrow> string" where
  "toLowerCase s = map lower_char s"

definition endsWith :: "string \<Rightarrow> string \<Rightarrow> bool" where
  "endsWith s suffix =
     (length suffix \<le> length s \<and> drop (length s - length suffix) s = suffix)"

definition isHeic :: "File \<Rightarrow> bool" where
  "isHeic file =
     (type file = ''image/heic'' \<or> type file = ''image/heif'' \<or>
      endsWith (toLowerCase (name file)) ''.heic'' \<or>
      endsWith (toLowerCase (name file)) ''.heif'')"

definition read_and_decode ::
  "loader \<Rightarrow> file_or_blob \<Rightarrow> call list \<times> (load_error + HTMLImageElement)" where
  "read_and_decode env processedFile =
     (case readAsDataURL env processedFile of
        None \<Rightarrow> ([ReadAsDataURL processedFile], Inl FileReadFailed)
      | Some url \<Rightarrow>
          (case decodeImage env url of
             None \<Rightarrow> ([ReadAsDataURL processedFile, SetSrc url], Inl ImageLoadFailed)
           | Some img \<Rightarrow> ([ReadAsDataURL processedFile, SetSrc url], Inr img)))"

definition jpeg_request :: "File \<Rightarrow> heic_request" where
  "jpeg_request file = \<lparr>blob = file, toType = ''image/jpeg'', conversion_quality = 0.95\<rparr>"

definition after_calls ::
  "call list \<Rightarrow> call list \<times> (load_error + HTMLImageElement)
     \<Rightarrow> call list \<times> (load_error + HTMLImageElement)" where
  "after_calls cs r = (cs @ fst r, snd r)"

definition loadImage :: "loader \<Rightarrow> File \<Rightarrow> call list \<times> (load_error + HTMLImageElement)" where
  "loadImage env file =
     (if isHeic file
      then (case heic2any env (jpeg_request file) of
              None \<Rightarrow> ([Heic2any (jpeg_request file)], Inl HeicConversionFailed)
            | Some (OneBlob b) \<Rightarrow>
                after_calls [Heic2any (jpeg_request file)] (read_and_decode env (ABlob b))
            | Some (BlobArray bs) \<Rightarrow>
                (case bs of
                   [] \<Rightarrow> ([Heic2any (jpeg_request file)], Inl TypeError)
                 | b # rest \<Rightarrow>
                     after_calls [Heic2any (jpeg_request file)]
                       (read_and_decode env (ABlob b))))
      else read_and_decode env (AFile file))"

text \<open>
  The HEIC test as the specification words it: the declared type is one of the two
  HEIC types, or the name ends, whatever the case of its letters, in one of the two
  extensions.
\<close>

definition spec_is_heic :: "File \<Rightarrow> bool" where
  "spec_is_heic file =
     (type file \<in> {''image/heic'', ''image/heif''} \<or>
      (\<exists>stem ext. name file = stem @ ext \<and>
         toLowerCase ext \<in> {''.heic'', ''.heif''}))"

fun is_heic2any :: "call \<Rightarrow> bool" where
  "is_heic2any (Heic2any r) = True"
| "is_heic2any c = False"

section \<open>The tile loops in closed form\<close>

text \<open>
  What the arithmetic of doubles is assumed to do where a theorem needs it: rounding
  is monotone, leaves a double as it is and leaves zero as it is; and the integers up
  to \<open>2 ^ 53\<close> in magnitude are doubles.
\<close>

definition rounds :: "(real \<Rightarrow> real) \<Rightarrow> bool" where
  "rounds f = ((\<forall>x y. x \<le> y \<longrightarrow> f x \<le> f y) \<and> (\<forall>x. f (f x) = f x) \<and> f 0 = 0)"

definition ints_exact :: "(real \<Rightarrow> real) \<Rightarrow> bool" where
  "ints_exact f = (\<forall>k::int. \<bar>k\<bar> \<le> 2 ^ 53 \<longrightarrow> f (of_int k) = of_int k)"

text \<open>
  What the stamp of cell \<open>(row, col)\<close> appends to the painted list when the cell
  centre is finite, the grid bounds as integers, and the stamps of one row and of the
  whole grid.
\<close>

fun the_num :: "jsnum \<Rightarrow> real" where
  "the_num (Num a) = a"
| "the_num x = 0"

definition tile_paint ::
  "backend \<Rightarrow> nat \<Rightarrow> nat \<Rightarrow> real \<Rightarrow> WatermarkOptions \<Rightarrow> drawing_state \<Rightarrow> real \<Rightarrow> real \<Rightarrow> painted" where
  "tile_paint be w h tw opts st row col =
     FillText (wtext opts) (- tw / 2) (fontSize opts / 4)
       (st\<lparr>transform :=
          mmul (mmul (transform st)
                     (translation (the_num (centerX be w tw opts col))
                                  (the_num (centerY be h tw opts row))))
               (rotation_matrix (angle be opts))\<rparr>)"

definition grid_cols :: "backend \<Rightarrow> nat \<Rightarrow> real \<Rightarrow> WatermarkOptions \<Rightarrow> int" where
  "grid_cols be w tw opts = \<lceil>fl be (real w / cellWidth be tw opts)\<rceil> + 2"

definition grid_rows :: "backend \<Rightarrow> nat \<Rightarrow> real \<Rightarrow> WatermarkOptions \<Rightarrow> int" where
  "grid_rows be h tw opts = \<lceil>fl be (real h / cellHeight be tw opts)\<rceil> + 2"

definition grid_ok :: "backend \<Rightarrow> nat \<Rightarrow> nat \<Rightarrow> real \<Rightarrow> WatermarkOptions \<Rightarrow> bool" where
  "grid_ok be w h tw opts =
     (cellWidth be tw opts \<noteq> 0 \<and> cellHeight be tw opts \<noteq> 0 \<and> ints_exact (fl be) \<and>
      \<bar>grid_cols be w tw opts\<bar> \<le> 2 ^ 53 \<and> \<bar>grid_rows be h tw opts\<bar> \<le> 2 ^ 53)"

definition row_paint ::
  "backend \<Rightarrow> nat \<Rightarrow> nat \<Rightarrow> real \<Rightarrow> WatermarkOptions \<Rightarrow> drawing_state \<Rightarrow> real \<Rightarrow> painted list" where
  "row_paint be w h tw opts st row =
     map (\<lambda>col. tile_paint be w h tw opts st row (of_int col))
         [- 1..grid_cols be w tw opts - 1]"

definition grid_paint ::
  "backend \<Rightarrow> nat \<Rightarrow> nat \<Rightarrow> real \<Rightarrow> WatermarkOptions \<Rightarrow> drawing_state \<Rightarrow> painted list" where
  "grid_paint be w h tw opts st =
     concat (map (\<lambda>row. row_paint be w h tw opts st (of_int row))
                 [- 1..grid_rows be h tw opts - 1])"

section \<open>A concrete backend and concrete inputs\<close>

text \<open>
  A backend whose glyphs are half as wide as the font size, whose context, image
  drawing and encoder do not throw and whose arithmetic is exact: on the inputs
  evaluated below, all unrotated, the arithmetic of doubles gives the same cell
  sizes, counts and coordinates. The same backend with an encoder that throws. And
  the inputs used to evaluate the program: an image of a given size and the options
  \<open>SAMPLE\<close> at 40px, tiled, unrotated, with a spacing of 50 percent, and variants of
  them.
\<close>

definition example_backend :: backend where
  "example_backend =
     \<lparr>measureText = (\<lambda>f t. case f of Font px family \<Rightarrow> px / 2 * real (length t)),
      toDataURL = (\<lambda>cv mime q. Inr (''data:'' @ mime)),
      has_context = True,
      drawImage_throws = (\<lambda>img. None),
      fl = (\<lambda>x. x), Math_cos = cos, Math_sin = sin, Math_PI = pi\<rparr>"

definition tainted_backend :: backend where
  "tainted_backend = example_backend\<lparr>toDataURL := (\<lambda>cv mime q. Inl SecurityError)\<rparr>"

definition example_image :: "nat \<Rightarrow> nat \<Rightarrow> HTMLImageElement" where
  "example_image w h = \<lparr>width = w, height = h, src = ''photo''\<rparr>"

definition example_options :: WatermarkOptions where
  "example_options =
     \<lparr>wtext = ''SAMPLE'', fontSize = 40, color = ''#000000'', opacity = 0.3,
      position = Center, rotation = 0, mode = Tile, spacing = 50,
      offsetX = 0, offsetY = 0\<rparr>"

definition example_plan :: tile_plan where
  "example_plan = spec_tile_plan example_backend 800 600 120 40 0 50 0 0"

definition empty_text_options :: WatermarkOptions where
  "empty_text_options = example_options\<lparr>wtext := ''''\<rparr>"

definition dense_options :: WatermarkOptions where
  "dense_options = example_options\<lparr>wtext := ''A'', fontSize := 1, spacing := 0\<rparr>"

definition shifted_options :: WatermarkOptions where
  "shifted_options = example_options\<lparr>spacing := 0, offsetX := 50, offsetY := 50\<rparr>"

definition scenario_options :: WatermarkOptions where
  "scenario_options = example_options\<lparr>mode := Single\<rparr>"

definition example_loader :: loader where
  "example_loader =
     \<lparr>heic2any = (\<lambda>r. Some (OneBlob \<lparr>blob_type = toType r, blob_bytes = bytes (blob r)\<rparr>)),
      readAsDataURL = (\<lambda>p. case p of AFile f \<Rightarrow> Some (bytes f) | ABlob b \<Rightarrow> Some (blob_bytes b)),
      decodeImage = (\<lambda>url. Some (example_image 800 600))\<rparr>"

definition heic_file :: File where
  "heic_file = \<lparr>name = ''IMG_0001.HEIC'', type = '''', bytes = ''ftypheic''\<rparr>"

definition png_file :: File where
  "png_file = \<lparr>name = ''scan.png'', type = ''image/png'', bytes = ''PNG''\<rparr>"

section \<open>Loops: divergence, closed form, invariants\<close>

lemma for_loop_Some_bound:
  assumes "for_loop f bound body i s = Some y"
  shows "bound \<noteq> PosInf"
proof (rule for_loop.raw_induct [where P = "\<lambda>f bound body i s y. bound \<noteq> PosInf", OF _ assms])
  fix g :: "(real \<Rightarrow> real) \<Rightarrow> jsnum \<Rightarrow> (real \<Rightarrow> 'a \<Rightarrow> 'a option) \<Rightarrow> real \<Rightarrow> 'a \<Rightarrow> 'a option"
    and f bound body i s y
  assume IH: "\<And>f bound body i s y. g f bound body i s = Some y \<Longrightarrow> bound \<noteq> PosInf"
    and step: "(if jlt (Num i) bound
      then Option.bind (body i s) (\<lambda>s'. g f bound body (f (i + 1)) s')
      else Some s) = Some y"
  show "bound \<noteq> PosInf"
  proof
    assume "bound = PosInf"
    with step obtain s' where "g f bound body (f (i + 1)) s' = Some y"
      by (auto simp: bind_eq_Some_conv)
    with IH \<open>bound = PosInf\<close> show False by blast
  qed
qed

lemma for_loop_PosInf: "for_loop f PosInf body i s = None"
  using for_loop_Some_bound [of f PosInf body i s] by (cases "for_loop f PosInf body i s") auto

text \<open>
  A counter that \<open>i + 1\<close> rounds back to, below the bound: the loop does not return.
  This is what happens to a double counter at \<open>2 ^ 53\<close>.
\<close>

lemma for_loop_stuck_Some:
  assumes "for_loop f bound body i s = Some y"
  shows "\<not> (f (i + 1) = i \<and> jlt (Num i) bound)"
proof (rule for_loop.raw_induct
    [where P = "\<lambda>f bound body i s y. \<not> (f (i + 1) = i \<and> jlt (Num i) bound)", OF _ assms])
  fix g :: "(real \<Rightarrow> real) \<Rightarrow> jsnum \<Rightarrow> (real \<Rightarrow> 'a \<Rightarrow> 'a option) \<Rightarrow> real \<Rightarrow> 'a \<Rightarrow> 'a option"
    and f bound body i s y
  assume IH: "\<And>f bound body i s y. g f bound body i s = Some y \<Longrightarrow>
        \<not> (f (i + 1) = i \<and> jlt (Num i) bound)"
    and step: "(if jlt (Num i) bound
      then Option.bind (body i s) (\<lambda>s'. g f bound body (f (i + 1)) s')
      else Some s) = Some y"
  show "\<not> (f (i + 1) = i \<and> jlt (Num i) bound)"
  proof
    assume stuck: "f (i + 1) = i \<and> jlt (Num i) bound"
    with step obtain s' where "g f bound body i s' = Some y"
      by (auto simp: bind_eq_Some_conv)
    with IH stuck show False by blast
  qed
qed

lemma for_loop_stuck:
  "f (i + 1) = i \<Longrightarrow> jlt (Num i) bound \<Longrightarrow> for_loop f bound body i s = None"
  using for_loop_stuck_Some [of f bound body i s] by (cases "for_loop f bound body i s") auto

lemma for_loop_Num:
  assumes total: "\<And>i s. body i s = Some (g i s)"
    and exact: "ints_exact f"
    and lo: "- (2 ^ 53) \<le> i"
    and hi: "n \<le> 2 ^ 53"
  shows "for_loop f (Num (of_int n)) body (of_int i) s =
           Some (fold (\<lambda>k. g (of_int k)) [i..n - 1] s)"
  using lo
proof (induction "nat (n - i)" arbitrary: i s)
  case 0
  then have "\<not> i < n" by simp
  moreover from 0 have "[i..n - 1] = []" by simp
  ultimately show ?case by (simp add: for_loop.simps [of f "Num (of_int n)" body "of_int i" s])
next
  case (Suc m)
  then have lt: "i < n" and m: "m = nat (n - (i + 1))" by simp_all
  from lt hi Suc.prems have "\<bar>i + 1\<bar> \<le> 2 ^ 53" by simp
  with exact have "f (of_int (i + 1)) = of_int (i + 1)"
    unfolding ints_exact_def by blast
  then have next_i: "f (real_of_int i + 1) = of_int (i + 1)" by simp
  from lt have up: "[i..n - 1] = i # [i + 1..n - 1]" by (simp add: upto_rec1)
  from Suc.prems have "- (2 ^ 53) \<le> i + 1" by simp
  from Suc.hyps(1) [OF m this] lt show ?case
    by (simp add: for_loop.simps [of f "Num (of_int n)" body "of_int i" s] total next_i up)
qed

lemma for_loop_invariant:
  assumes run: "for_loop f bound body i s = Some y"
    and pres: "\<And>i s s'. I s \<Longrightarrow> body i s = Some s' \<Longrightarrow> I s'"
    and init: "I s"
  shows "I y"
proof -
  have "(\<forall>i s s'. I s \<longrightarrow> body i s = Some s' \<longrightarrow> I s') \<longrightarrow> I s \<longrightarrow> I y"
  proof (rule for_loop.raw_induct
      [where P = "\<lambda>f bound body i s y. (\<forall>i s s'. I s \<longrightarrow> body i s = Some s' \<longrightarrow> I s') \<longrightarrow> I s \<longrightarrow> I y",
        OF _ run])
    fix g :: "(real \<Rightarrow> real) \<Rightarrow> jsnum \<Rightarrow> (real \<Rightarrow> 'a \<Rightarrow> 'a option) \<Rightarrow> real \<Rightarrow> 'a \<Rightarrow> 'a option"
      and f bound body i s y
    assume IH: "\<And>f bound body i s y. g f bound body i s = Some y \<Longrightarrow>
        (\<forall>i s s'. I s \<longrightarrow> body i s = Some s' \<longrightarrow> I s') \<longrightarrow> I s \<longrightarrow> I y"
      and step: "(if jlt (Num i) bound
        then Option.bind (body i s) (\<lambda>s'. g f bound body (f (i + 1)) s')
        else Some s) = Some y"
    show "(\<forall>i s s'. I s \<longrightarrow> body i s = Some s' \<longrightarrow> I s') \<longrightarrow> I s \<longrightarrow> I y"
    proof (intro impI)
      assume b: "\<forall>i s s'. I s \<longrightarrow> body i s = Some s' \<longrightarrow> I s'" and s: "I s"
      show "I y"
      proof (cases "jlt (Num i) bound")
        case True
        with step obtain s' where 1: "body i s = Some s'"
          and 2: "g f bound body (f (i + 1)) s' = Some y"
          by (auto simp: bind_eq_Some_conv)
        from b s 1 have "I s'" by blast
        with IH [OF 2] b show ?thesis by blast
      next
        case False
        with step s show ?thesis by simp
      qed
    qed
  qed
  with pres init show ?thesis by blast
qed

section \<open>Tile mode with a grid that can be counted\<close>

lemma cols_finite:
  assumes "grid_ok be w h tw opts"
  shows "cols be w tw opts = Num (of_int (grid_cols be w tw opts))"
proof -
  from assms have "fl be (of_int (grid_cols be w tw opts)) = of_int (grid_cols be w tw opts)"
    unfolding grid_ok_def ints_exact_def by blast
  moreover from assms have "cellWidth be tw opts \<noteq> 0" by (simp add: grid_ok_def)
  ultimately show ?thesis by (simp add: cols_def grid_cols_def)
qed

lemma rows_finite:
  assumes "grid_ok be w h tw opts"
  shows "rows be h tw opts = Num (of_int (grid_rows be h tw opts))"
proof -
  from assms have "fl be (of_int (grid_rows be h tw opts)) = of_int (grid_rows be h tw opts)"
    unfolding grid_ok_def ints_exact_def by blast
  moreover from assms have "cellHeight be tw opts \<noteq> 0" by (simp add: grid_ok_def)
  ultimately show ?thesis by (simp add: rows_def grid_rows_def)
qed

lemma startX_finite:
  assumes "grid_ok be w h tw opts"
  shows "startX be w tw opts =
       Num ((real w - (of_int (grid_cols be w tw opts) - 1) * cellWidth be tw opts) / 2
            + offsetXPixels w opts)"
  by (simp add: startX_def cols_finite [OF assms] jsub_def)

lemma startY_finite:
  assumes "grid_ok be w h tw opts"
  shows "startY be h tw opts =
       Num ((real h - (of_int (grid_rows be h tw opts) - 1) * cellHeight be tw opts) / 2
            + offsetYPixels h opts)"
  by (simp add: startY_def rows_finite [OF assms] jsub_def)

lemma centerX_finite:
  "startX be w tw opts = Num sx \<Longrightarrow>
     centerX be w tw opts col = Num (sx + col * cellWidth be tw opts + rotatedWidth be tw opts / 2)"
  by (simp add: centerX_def)

lemma centerY_finite:
  "startY be h tw opts = Num sy \<Longrightarrow>
     centerY be h tw opts row = Num (sy + row * cellHeight be tw opts + rotatedHeight be tw opts / 2)"
  by (simp add: centerY_def)

lemma tile_stamp_paint:
  assumes "grid_ok be w h tw opts"
  shows "tile_stamp be w h tw opts row col cv =
           cv\<lparr>paint := paint cv @ [tile_paint be w h tw opts (state cv) row col]\<rparr>"
  by (simp add: tile_stamp_def tile_paint_def
      centerX_finite [OF startX_finite [OF assms]] centerY_finite [OF startY_finite [OF assms]]
      restore_def fillText_def rotate_def translate_def transform_by_def save_def)

lemma fold_tile_stamp:
  assumes "grid_ok be w h tw opts"
  shows "fold (\<lambda>k. tile_stamp be w h tw opts row (of_int k)) cs cv =
           cv\<lparr>paint := paint cv @
              map (\<lambda>k. tile_paint be w h tw opts (state cv) row (of_int k)) cs\<rparr>"
proof (induction cs arbitrary: cv)
  case Nil
  show ?case by simp
next
  case (Cons c cs)
  have "fold (\<lambda>k. tile_stamp be w h tw opts row (of_int k)) (c # cs) cv =
      fold (\<lambda>k. tile_stamp be w h tw opts row (of_int k)) cs
        (cv\<lparr>paint := paint cv @ [tile_paint be w h tw opts (state cv) row (of_int c)]\<rparr>)"
    by (simp add: tile_stamp_paint [OF assms, of row "of_int c" cv])
  then show ?case by (simp add: Cons.IH)
qed

lemma grid_ok_bounds:
  assumes "grid_ok be w h tw opts"
  shows "ints_exact (fl be)"
    and "grid_cols be w tw opts \<le> 2 ^ 53"
    and "grid_rows be h tw opts \<le> 2 ^ 53"
  using assms unfolding grid_ok_def by auto

lemma tile_row_finite:
  assumes "grid_ok be w h tw opts"
  shows "tile_row be w h tw opts row cv =
           Some (cv\<lparr>paint := paint cv @ row_paint be w h tw opts (state cv) row\<rparr>)"
proof -
  have "for_loop (fl be) (Num (of_int (grid_cols be w tw opts)))
          (\<lambda>col c. Some (tile_stamp be w h tw opts row col c)) (of_int (- 1)) cv =
      Some (fold (\<lambda>k. tile_stamp be w h tw opts row (of_int k))
              [- 1..grid_cols be w tw opts - 1] cv)"
    by (rule for_loop_Num [OF _ grid_ok_bounds(1) [OF assms] _ grid_ok_bounds(2) [OF assms]])
      simp_all
  then show ?thesis
    by (simp add: tile_row_def cols_finite [OF assms] fold_tile_stamp [OF assms] row_paint_def)
qed

lemma fold_rows:
  "fold (\<lambda>k c. c\<lparr>paint := paint c @ row_paint be w h tw opts (state c) (of_int k)\<rparr>) rs cv =
     cv\<lparr>paint := paint cv @
         concat (map (\<lambda>k. row_paint be w h tw opts (state cv) (of_int k)) rs)\<rparr>"
  by (induction rs arbitrary: cv) simp_all

lemma tile_watermark_finite:
  assumes "grid_ok be (canvas_width cv) (canvas_height cv) tw opts"
  shows "tile_watermark be tw opts cv =
     Some (cv\<lparr>paint := paint cv @
        grid_paint be (canvas_width cv) (canvas_height cv) tw opts (state cv)\<rparr>)"
proof -
  let ?w = "canvas_width cv" and ?h = "canvas_height cv"
  have "for_loop (fl be) (Num (of_int (grid_rows be ?h tw opts)))
          (tile_row be ?w ?h tw opts) (of_int (- 1)) cv =
      Some (fold (\<lambda>k c. c\<lparr>paint := paint c @ row_paint be ?w ?h tw opts (state c) (of_int k)\<rparr>)
              [- 1..grid_rows be ?h tw opts - 1] cv)"
    by (rule for_loop_Num [OF _ grid_ok_bounds(1) [OF assms] _ grid_ok_bounds(3) [OF assms]])
      (simp_all add: tile_row_finite [OF assms])
  then show ?thesis
    by (simp add: tile_watermark_def rows_finite [OF assms] fold_rows grid_paint_def)
qed

lemma length_concat_const:
  "(\<And>x. x \<in> set xs \<Longrightarrow> length (f x) = n) \<Longrightarrow> length (concat (map f xs)) = length xs * n"
  by (induction xs) simp_all

lemma length_grid_paint:
  "length (grid_paint be w h tw opts st) =
     nat (grid_rows be h tw opts + 1) * nat (grid_cols be w tw opts + 1)"
  unfolding grid_paint_def
  by (simp add: length_concat_const [where n = "nat (grid_cols be w tw opts + 1)"] row_paint_def)

lemma filter_grid_paint:
  "filter is_fillText (grid_paint be w h tw opts st) = grid_paint be w h tw opts st"
  by (rule filter_True) (auto simp: grid_paint_def row_paint_def tile_paint_def)

lemma prepare_simps:
  "canvas_width (prepare img opts) = width img"
  "canvas_height (prepare img opts) = height img"
  "transform (state (prepare img opts)) = identity"
  "font (state (prepare img opts)) = Font (fontSize opts) ''Arial''"
  "paint (prepare img opts) = [DrawImage img 0 0 (state createCanvas)]"
  by (simp_all add: prepare_def Let_def drawImage_def createCanvas_def)

lemma render_tile_finite:
  assumes "mode opts = Tile"
    and "tw = measureText be (Font (fontSize opts) ''Arial'') (wtext opts)"
    and "grid_ok be (width img) (height img) tw opts"
  shows "render be img opts =
     Some ((prepare img opts)\<lparr>paint := DrawImage img 0 0 (state createCanvas) #
        grid_paint be (width img) (height img) tw opts (state (prepare img opts))\<rparr>)"
proof -
  have "render be img opts = tile_watermark be tw opts (prepare img opts)"
    unfolding assms(2) using assms(1) by (simp add: render_def Let_def prepare_simps)
  moreover have "grid_ok be (canvas_width (prepare img opts)) (canvas_height (prepare img opts))
      tw opts"
    using assms(3) by (simp add: prepare_simps)
  ultimately show ?thesis
    by (simp add: tile_watermark_finite prepare_simps)
qed

lemma stamp_count_tile:
  "stamp_count (cv\<lparr>paint := DrawImage img 0 0 st0 # grid_paint be w h tw opts st\<rparr>) =
     nat (grid_rows be h tw opts + 1) * nat (grid_cols be w tw opts + 1)"
  by (simp add: stamp_count_def filter_grid_paint length_grid_paint)

lemma plan_simps:
  "theta (spec_tile_plan be W H tw th r s ox oy) = fl be (fl be (r * Math_PI be) / 180)"
  "rotated_width (spec_tile_plan be W H tw th r s ox oy) =
     fl be (fl be (tw * \<bar>Math_cos be (theta (spec_tile_plan be W H tw th r s ox oy))\<bar>) +
            fl be (th * \<bar>Math_sin be (theta (spec_tile_plan be W H tw th r s ox oy))\<bar>))"
  "rotated_height (spec_tile_plan be W H tw th r s ox oy) =
     fl be (fl be (tw * \<bar>Math_sin be (theta (spec_tile_plan be W H tw th r s ox oy))\<bar>) +
            fl be (th * \<bar>Math_cos be (theta (spec_tile_plan be W H tw th r s ox oy))\<bar>))"
  "spacing_gap (spec_tile_plan be W H tw th r s ox oy) =
     fl be (rotated_width (spec_tile_plan be W H tw th r s ox oy) * fl be (s / 100))"
  "cell_width (spec_tile_plan be W H tw th r s ox oy) =
     fl be (rotated_width (spec_tile_plan be W H tw th r s ox oy) +
            spacing_gap (spec_tile_plan be W H tw th r s ox oy))"
  "cell_height (spec_tile_plan be W H tw th r s ox oy) =
     fl be (rotated_height (spec_tile_plan be W H tw th r s ox oy) +
            spacing_gap (spec_tile_plan be W H tw th r s ox oy))"
  "n_cols (spec_tile_plan be W H tw th r s ox oy) =
     \<lceil>fl be (W / cell_width (spec_tile_plan be W H tw th r s ox oy))\<rceil> + 2"
  "n_rows (spec_tile_plan be W H tw th r s ox oy) =
     \<lceil>fl be (H / cell_height (spec_tile_plan be W H tw th r s ox oy))\<rceil> + 2"
  "start_x (spec_tile_plan be W H tw th r s ox oy) =
     (W - (of_int (n_cols (spec_tile_plan be W H tw th r s ox oy)) - 1)
            * cell_width (spec_tile_plan be W H tw th r s ox oy)) / 2 + ox / 100 * W"
  "start_y (spec_tile_plan be W H tw th r s ox oy) =
     (H - (of_int (n_rows (spec_tile_plan be W H tw th r s ox oy)) - 1)
            * cell_height (spec_tile_plan be W H tw th r s ox oy)) / 2 + oy / 100 * H"
  by (simp_all add: spec_tile_plan_def Let_def)

section \<open>Rotations about a point\<close>

lemma apply_rotate_about:
  "apply_matrix (rotate_about (cx, cy) a) (x, y) =
     (cx + cos a * (x - cx) - sin a * (y - cy), cy + sin a * (x - cx) + cos a * (y - cy))"
  by (simp add: rotate_about_def algebra_simps)

lemma frame_about:
  "mmul (mmul (mmul identity (translation cx cy)) (rotation_matrix a)) (translation dx dy) =
     mmul (rotate_about (cx, cy) a) (translation (cx + dx) (cy + dy))"
  by (simp add: identity_def translation_def rotation_matrix_def rotate_about_def algebra_simps)

lemma rotation_about_point:
  "dx = - cx \<Longrightarrow> dy = - cy \<Longrightarrow>
   mmul (mmul (mmul identity (translation cx cy)) (rotation_matrix a)) (translation dx dy) =
     rotate_about (cx, cy) a"
  by (simp add: identity_def translation_def rotation_matrix_def rotate_about_def algebra_simps)

lemma stamp_view_tile_paint:
  assumes "the_num (centerX be w tw opts col) = cx"
    and "the_num (centerY be h tw opts row) = cy"
    and "transform st = identity"
  shows "stamp_view (tile_paint be w h tw opts st row col) =
     Some (wtext opts,
           mmul (rotate_about (cx, cy) (angle be opts))
                (translation (cx - tw / 2) (cy + fontSize opts / 4)))"
  using assms frame_about [of cx cy "angle be opts" "- tw / 2" "fontSize opts / 4"]
  by (simp add: tile_paint_def)

section \<open>The size of the canvas\<close>

lemma tile_stamp_size:
  "canvas_width (tile_stamp be w h tw opts row col cv) = canvas_width cv \<and>
   canvas_height (tile_stamp be w h tw opts row col cv) = canvas_height cv"
  by (simp add: tile_stamp_def restore_def fillText_def rotate_def translate_def
      transform_by_def save_def split: jsnum.splits)

lemma tile_row_size:
  assumes "tile_row be w h tw opts row cv = Some cv'"
    and "canvas_width cv = a \<and> canvas_height cv = b"
  shows "canvas_width cv' = a \<and> canvas_height cv' = b"
proof (rule for_loop_invariant
    [where I = "\<lambda>c. canvas_width c = a \<and> canvas_height c = b",
      OF assms(1) [unfolded tile_row_def] _ assms(2)])
  fix i s s'
  assume "canvas_width s = a \<and> canvas_height s = b"
    and "Some (tile_stamp be w h tw opts row i s) = Some s'"
  then show "canvas_width s' = a \<and> canvas_height s' = b"
    using tile_stamp_size [of be w h tw opts row i s] by auto
qed

lemma tile_watermark_size:
  assumes "tile_watermark be tw opts cv = Some cv'"
  shows "canvas_width cv' = canvas_width cv \<and> canvas_height cv' = canvas_height cv"
proof (rule for_loop_invariant
    [where I = "\<lambda>c. canvas_width c = canvas_width cv \<and> canvas_height c = canvas_height cv",
      OF assms [unfolded tile_watermark_def]])
  fix i s s'
  assume "canvas_width s = canvas_width cv \<and> canvas_height s = canvas_height cv"
    and "tile_row be (canvas_width cv) (canvas_height cv) tw opts i s = Some s'"
  then show "canvas_width s' = canvas_width cv \<and> canvas_height s' = canvas_height cv"
    using tile_row_size by blast
qed simp

lemma single_watermark_size:
  "canvas_width (single_watermark tw opts cv) = canvas_width cv \<and>
   canvas_height (single_watermark tw opts cv) = canvas_height cv"
  by (simp add: single_watermark_def Let_def restore_def fillText_def rotate_def translate_def
      transform_by_def save_def)

lemma render_size:
  assumes "render be img opts = Some cv"
  shows "canvas_width cv = width img \<and> canvas_height cv = height img"
proof (cases "mode opts = Tile")
  case True
  with assms tile_watermark_size show ?thesis
    by (fastforce simp: render_def Let_def prepare_simps)
next
  case False
  with assms single_watermark_size show ?thesis
    by (fastforce simp: render_def Let_def prepare_simps)
qed

lemma render_single:
  "mode opts \<noteq> Tile \<Longrightarrow>
     render be img opts =
       Some (single_watermark (measureText be (Font (fontSize opts) ''Arial'') (wtext opts)) opts
               (prepare img opts))"
  by (simp add: render_def Let_def prepare_simps)

section \<open>How addWatermark settles\<close>

lemma addWatermark_runs:
  assumes "has_context be" and "drawImage_throws be img = None"
  shows "addWatermark be img opts eo =
           map_option (\<lambda>cv. settle (encode be eo cv)) (render be img opts)"
  using assms by (simp add: addWatermark_def)

lemma settle_simps:
  "settle (Inr url) = Resolved url"
  "settle (Inl e) = Rejected (Thrown e)"
  by (simp_all add: settle_def)

lemma settle_typed:
  "settle r \<noteq> Rejected EncodingError" "settle r \<noteq> Rejected DegenerateTilingError"
  by (cases r; simp add: settle_def)+

section \<open>Rounding and the cell size\<close>








section \<open>Single mode\<close>

lemma base_position_spec:
  "base_position tw opts cv =
     spec_anchor (position opts) (real (canvas_width cv)) (real (canvas_height cv)) tw (fontSize opts)"
  by (cases "position opts") (simp_all add: base_position_def)

lemma single_watermark_paint:
  assumes "transform (state cv) = identity"
    and "xy = spec_shifted_anchor (position opts) (real (canvas_width cv)) (real (canvas_height cv))
               tw (fontSize opts) (offsetX opts) (offsetY opts)"
  shows "single_watermark tw opts cv =
     cv\<lparr>paint := paint cv @
       [FillText (wtext opts) (fst xy) (snd xy)
          ((state cv)\<lparr>transform :=
             rotate_about (fst xy + tw / 2, snd xy - fontSize opts / 2)
                          (rotation opts * pi / 180)\<rparr>)]\<rparr>"
proof -
  have x: "fst (base_position tw opts cv) + offsetXPixels (canvas_width cv) opts = fst xy"
    and y: "snd (base_position tw opts cv) + offsetYPixels (canvas_height cv) opts = snd xy"
    by (simp_all add: assms(2) spec_shifted_anchor_def base_position_spec offsetXPixels_def
        offsetYPixels_def)
  show ?thesis
    unfolding single_watermark_def Let_def x y
    by (simp add: restore_def fillText_def rotate_def translate_def transform_by_def save_def
        assms(1) rotation_about_point)
qed

section \<open>The HEIC test and the calls of loadImage\<close>

lemma endsWith_iff:
  "endsWith (toLowerCase n) s \<longleftrightarrow> (\<exists>stem ext. n = stem @ ext \<and> toLowerCase ext = s)"
proof
  assume e: "endsWith (toLowerCase n) s"
  let ?k = "length n - length s"
  have "n = take ?k n @ drop ?k n" by simp
  moreover from e have "toLowerCase (drop ?k n) = s"
    by (simp add: endsWith_def toLowerCase_def drop_map)
  ultimately show "\<exists>stem ext. n = stem @ ext \<and> toLowerCase ext = s" by blast
next
  assume "\<exists>stem ext. n = stem @ ext \<and> toLowerCase ext = s"
  then obtain stem ext where n: "n = stem @ ext" and s: "toLowerCase ext = s" by blast
  from s have "length s = length ext" by (auto simp: toLowerCase_def)
  with n s show "endsWith (toLowerCase n) s"
    by (simp add: endsWith_def toLowerCase_def)
qed

lemma isHeic_spec: "isHeic file = spec_is_heic file"
  unfolding isHeic_def spec_is_heic_def endsWith_iff by auto

lemma read_and_decode_first:
  "\<exists>rest. fst (read_and_decode env p) = ReadAsDataURL p # rest"
  by (simp add: read_and_decode_def split: option.splits)

lemma read_and_decode_no_conversion:
  "\<not> list_ex is_heic2any (fst (read_and_decode env p))"
  by (simp add: read_and_decode_def split: option.splits)

lemma loadImage_heic:
  assumes "isHeic file"
  shows "\<exists>rest. fst (loadImage env file) = Heic2any (jpeg_request file) # rest \<and>
               \<not> list_ex is_heic2any rest"
  using assms
  by (simp add: loadImage_def after_calls_def read_and_decode_no_conversion
      split: option.splits heic_result.splits list.splits)

section \<open>The concrete inputs, evaluated\<close>

lemma example_arith:
  "fl example_backend x = x" "Math_cos example_backend = cos" "Math_sin example_backend = sin"
  "Math_PI example_backend = pi" "has_context example_backend"
  "drawImage_throws example_backend img = None"
  "rounds (fl example_backend)" "ints_exact (fl example_backend)"
  by (simp_all add: example_backend_def rounds_def ints_exact_def)

lemma example_tw:
  "measureText example_backend (Font (fontSize example_options) ''Arial'') (wtext example_options) = 120"
  by (simp add: example_backend_def example_options_def)

lemma example_plan_fields:
  "cell_width example_plan = 180" "cell_height example_plan = 100"
  "n_cols example_plan = 7" "n_rows example_plan = 8"
  "start_x example_plan = - 140" "start_y example_plan = - 50"
  by (simp_all add: example_plan_def plan_simps example_arith)

lemma example_cells:
  "rotatedWidth example_backend 120 example_options = 120"
  "rotatedHeight example_backend 120 example_options = 40"
  "cellWidth example_backend 120 example_options = 180"
  "cellHeight example_backend 120 example_options = 100"
  by (simp_all add: cellWidth_def cellHeight_def spacingGap_def rotatedWidth_def
      rotatedHeight_def angle_def example_arith example_options_def)

lemma example_grid:
  "grid_cols example_backend 800 120 example_options = 7"
  "grid_rows example_backend 600 120 example_options = 8"
  "grid_ok example_backend 800 600 120 example_options"
  by (simp_all add: grid_ok_def grid_cols_def grid_rows_def example_cells example_arith)



lemma example_render_returns:
  "\<exists>cv. render example_backend (example_image 800 600) example_options = Some cv"
  using render_tile_finite [of example_options 120 example_backend "example_image 800 600"]
    example_grid(3)
  by (simp add: example_tw example_image_def) (simp add: example_options_def)

lemma dense_cells:
  "measureText example_backend (Font (fontSize dense_options) ''Arial'') (wtext dense_options) = 1 / 2"
  "cellWidth example_backend (1 / 2) dense_options = 1 / 2"
  "cellHeight example_backend (1 / 2) dense_options = 1"
  by (simp_all add: dense_options_def example_options_def example_backend_def cellWidth_def
      cellHeight_def spacingGap_def rotatedWidth_def rotatedHeight_def angle_def)

lemma dense_grid:
  "grid_cols example_backend 8000 (1 / 2) dense_options = 16002"
  "grid_rows example_backend 6000 (1 / 2) dense_options = 6002"
  "grid_ok example_backend 8000 6000 (1 / 2) dense_options"
  by (simp_all add: grid_ok_def grid_cols_def grid_rows_def dense_cells example_arith)

lemma empty_text_cells:
  "measureText example_backend (Font (fontSize empty_text_options) ''Arial'')
     (wtext empty_text_options) = 0"
  "rotatedWidth example_backend 0 empty_text_options = 0"
  "rotatedHeight example_backend 0 empty_text_options = 40"
  "cellWidth example_backend 0 empty_text_options = 0"
  "cellHeight example_backend 0 empty_text_options = 40"
  by (simp_all add: empty_text_options_def example_options_def example_backend_def cellWidth_def
      cellHeight_def spacingGap_def rotatedWidth_def rotatedHeight_def angle_def)

lemma empty_text_render:
  "render example_backend (example_image 800 600) empty_text_options = None"
proof -
  let ?o = "empty_text_options"
  let ?cv = "prepare (example_image 800 600) ?o"
  have c: "cols example_backend 800 0 ?o = PosInf"
    by (simp add: cols_def empty_text_cells inf_of_sign_def)
  have r: "rows example_backend 600 0 ?o = Num 17"
    by (simp add: rows_def empty_text_cells example_arith)
  have row: "tile_row example_backend 800 600 0 ?o row cv = None" for row cv
    by (simp add: tile_row_def c for_loop_PosInf)
  have "tile_watermark example_backend 0 ?o ?cv = None"
    unfolding tile_watermark_def
    by (subst for_loop.simps) (simp add: prepare_simps example_image_def r row)
  then show ?thesis
    using empty_text_cells(1)
    by (simp add: render_def Let_def prepare_simps)
      (simp add: empty_text_options_def example_options_def)
qed

lemma heic_file_isHeic: "isHeic heic_file"
  by code_simp

lemma png_file_not_isHeic: "\<not> isHeic png_file"
  by code_simp

section \<open>The claims\<close>

text \<open>
  C1 (tile-mode geometry), as the code has it. In tile mode, whenever the two cell
  sizes are nonzero and \<open>cols\<close> and \<open>rows\<close> do not exceed \<open>2 ^ 53\<close>, \<open>addWatermark\<close>
  computes the quantities of the specified algorithm in the arithmetic of the
  platform: the angle, the rotated bounding box, the spacing gap, the cell size,
  \<open>cols\<close> and \<open>rows\<close>, the start of the grid and every cell centre are those of
  \<open>spec_tile_plan\<close>; the canvas it hands to the encoder shows the image and then, row
  by row from \<open>-1\<close> to \<open>rows - 1\<close> and column by column from \<open>-1\<close> to \<open>cols - 1\<close>,
  one stamp of the text per cell, rotated about the cell centre and anchored
  \<open>(- textWidth / 2, + textHeight / 4)\<close> away from it.
\<close>

theorem tile_mode_geometry:
  assumes tile: "mode options = Tile"
    and tw: "tw = measureText be (Font (fontSize options) ''Arial'') (wtext options)"
    and p: "p = spec_tile_plan be (real (width img)) (real (height img)) tw (fontSize options)
                  (rotation options) (spacing options) (offsetX options) (offsetY options)"
    and cw: "cell_width p \<noteq> 0"
    and ch: "cell_height p \<noteq> 0"
    and ex: "ints_exact (fl be)"
    and nc: "\<bar>n_cols p\<bar> \<le> 2 ^ 53"
    and nr: "\<bar>n_rows p\<bar> \<le> 2 ^ 53"
  shows "angle be options = theta p \<and>
         rotatedWidth be tw options = rotated_width p \<and>
         rotatedHeight be tw options = rotated_height p \<and>
         spacingGap be tw options = spacing_gap p \<and>
         cellWidth be tw options = cell_width p \<and>
         cellHeight be tw options = cell_height p \<and>
         cols be (width img) tw options = Num (of_int (n_cols p)) \<and>
         rows be (height img) tw options = Num (of_int (n_rows p)) \<and>
         startX be (width img) tw options = Num (start_x p) \<and>
         startY be (height img) tw options = Num (start_y p) \<and>
         (\<forall>row col.
            centerX be (width img) tw options (of_int col) = Num (fst (spec_cell_center p row col)) \<and>
            centerY be (height img) tw options (of_int row) = Num (snd (spec_cell_center p row col))) \<and>
         (\<exists>cv stamps. render be img options = Some cv \<and>
            paint cv = DrawImage img 0 0 (state createCanvas) # stamps \<and>
            map stamp_view stamps =
              map Some (spec_tile_stamps p (wtext options) tw (fontSize options)))"
proof -
  let ?w = "width img" and ?h = "height img"
  let ?st = "state (prepare img options)"
  have a: "angle be options = theta p" by (simp add: p plan_simps angle_def)
  have rw: "rotatedWidth be tw options = rotated_width p"
    by (simp add: p plan_simps rotatedWidth_def angle_def)
  have rh: "rotatedHeight be tw options = rotated_height p"
    by (simp add: p plan_simps rotatedHeight_def angle_def)
  have gap: "spacingGap be tw options = spacing_gap p"
    using rw by (simp add: p plan_simps spacingGap_def)
  have cwe: "cellWidth be tw options = cell_width p"
    using rw gap by (simp add: p plan_simps cellWidth_def)
  have che: "cellHeight be tw options = cell_height p"
    using rh gap by (simp add: p plan_simps cellHeight_def)
  have gc: "grid_cols be ?w tw options = n_cols p"
    by (simp add: grid_cols_def cwe) (simp add: p plan_simps)
  have gr: "grid_rows be ?h tw options = n_rows p"
    by (simp add: grid_rows_def che) (simp add: p plan_simps)
  have ok: "grid_ok be ?w ?h tw options"
    using cw ch ex nc nr by (simp add: grid_ok_def cwe che gc gr)
  have c: "cols be ?w tw options = Num (of_int (n_cols p))"
    using cols_finite [OF ok] gc by simp
  have r: "rows be ?h tw options = Num (of_int (n_rows p))"
    using rows_finite [OF ok] gr by simp
  have sx: "startX be ?w tw options = Num (start_x p)"
    using startX_finite [OF ok] gc cwe
    by (simp add: offsetXPixels_def) (simp add: p plan_simps)
  have sy: "startY be ?h tw options = Num (start_y p)"
    using startY_finite [OF ok] gr che
    by (simp add: offsetYPixels_def) (simp add: p plan_simps)
  have cx: "centerX be ?w tw options (of_int col) = Num (fst (spec_cell_center p row col))"
    for row col
    by (simp add: centerX_finite [OF sx] spec_cell_center_def cwe rw)
  have cy: "centerY be ?h tw options (of_int row) = Num (snd (spec_cell_center p row col))"
    for row col
    by (simp add: centerY_finite [OF sy] spec_cell_center_def che rh)
  have view: "stamp_view (tile_paint be ?w ?h tw options ?st (of_int row) (of_int col)) =
      Some (spec_tile_stamp p (wtext options) tw (fontSize options) row col)" for row col
    using stamp_view_tile_paint [of be ?w tw options "of_int col"
        "fst (spec_cell_center p row col)" ?h "of_int row" "snd (spec_cell_center p row col)" ?st]
    by (simp add: prepare_simps cx [of col row] cy [of row col] spec_tile_stamp_def a)
  have row: "map stamp_view (row_paint be ?w ?h tw options ?st (of_int row)) =
      map Some (map (spec_tile_stamp p (wtext options) tw (fontSize options) row)
                    [- 1..n_cols p - 1])" for row
    by (simp add: row_paint_def gc view)
  have stamps: "map stamp_view (grid_paint be ?w ?h tw options ?st) =
      map Some (spec_tile_stamps p (wtext options) tw (fontSize options))"
    by (simp add: grid_paint_def gr map_concat spec_tile_stamps_def row comp_def)
  have "\<exists>cv stamps. render be img options = Some cv \<and>
            paint cv = DrawImage img 0 0 (state createCanvas) # stamps \<and>
            map stamp_view stamps =
              map Some (spec_tile_stamps p (wtext options) tw (fontSize options))"
    using render_tile_finite [OF tile tw ok] stamps by simp
  with a rw rh gap cwe che c r sx sy cx cy show ?thesis by blast
qed

theorem tile_mode_geometry_witness:
  "mode example_options = Tile \<and>
   cell_width example_plan \<noteq> 0 \<and> cell_height example_plan \<noteq> 0 \<and>
   ints_exact (fl example_backend) \<and>
   \<bar>n_cols example_plan\<bar> \<le> 2 ^ 53 \<and> \<bar>n_rows example_plan\<bar> \<le> 2 ^ 53 \<and>
   cols example_backend 800 120 example_options = Num 7 \<and>
   rows example_backend 600 120 example_options = Num 8 \<and>
   startX example_backend 800 120 example_options = Num (- 140) \<and>
   startY example_backend 600 120 example_options = Num (- 50) \<and>
   (\<exists>cv stamps. render example_backend (example_image 800 600) example_options = Some cv \<and>
      paint cv = DrawImage (example_image 800 600) 0 0 (state createCanvas) # stamps \<and>
      map stamp_view stamps = map Some (spec_tile_stamps example_plan ''SAMPLE'' 120 40))"
proof -
  have m: "mode example_options = Tile" by (simp add: example_options_def)
  have tw: "(120::real) =
      measureText example_backend (Font (fontSize example_options) ''Arial'') (wtext example_options)"
    by (simp add: example_tw)
  have p: "example_plan =
      spec_tile_plan example_backend (real (width (example_image 800 600)))
        (real (height (example_image 800 600)))
        120 (fontSize example_options) (rotation example_options) (spacing example_options)
        (offsetX example_options) (offsetY example_options)"
    by (simp add: example_plan_def example_image_def example_options_def)
  have cw: "cell_width example_plan \<noteq> 0" and ch: "cell_height example_plan \<noteq> 0"
    by (simp_all add: example_plan_fields)
  have ex: "ints_exact (fl example_backend)" by (rule example_arith)
  have nc: "\<bar>n_cols example_plan\<bar> \<le> 2 ^ 53" and nr: "\<bar>n_rows example_plan\<bar> \<le> 2 ^ 53"
    by (simp_all add: example_plan_fields)
  from tile_mode_geometry [OF m tw p cw ch ex nc nr] m cw ch ex nc nr show ?thesis
    by (simp add: example_plan_fields example_image_def example_options_def)
qed

text \<open>
  The claim C1 as stated, for every parameter set in tile mode, fails: for the empty
  text at 40px, unrotated, on an 800 by 600 image, \<open>cellWidth\<close> is 0, \<open>cols\<close> is
  \<open>Infinity\<close>, \<open>startX\<close> is \<open>NaN\<close> and the stamping never comes to an end, so no
  count of stamps is ever reached.
\<close>

theorem tile_geometry_counterexample:
  "cellWidth example_backend 0 empty_text_options = 0 \<and>
   cols example_backend 800 0 empty_text_options = PosInf \<and>
   startX example_backend 800 0 empty_text_options = NaN \<and>
   map_option stamp_count (render example_backend (example_image 800 600) empty_text_options)
     = None"
proof -
  have c: "cols example_backend 800 0 empty_text_options = PosInf"
    by (simp add: cols_def empty_text_cells inf_of_sign_def)
  have "startX example_backend 800 0 empty_text_options = NaN"
    by (simp add: startX_def c empty_text_cells jsub_def inf_of_sign_def)
  with c show ?thesis by (simp add: empty_text_cells empty_text_render)
qed

text \<open>
  C2 (degenerate text). The claim asks that an empty text in tile mode renders, with
  a fallback cell size of one pixel when \<open>rotatedWidth + rotatedHeight\<close> is 0. The code
  has no fallback and tests nothing before it divides: for the empty text at 40px,
  unrotated, on an 800 by 600 image, the measured width is 0, \<open>rotatedWidth\<close> is 0 and
  \<open>rotatedHeight\<close> is 40 (their sum is not 0), \<open>cellWidth\<close> is 0, \<open>cols\<close> is
  \<open>Infinity\<close> while \<open>rows\<close> is 17, so the inner loop of the first row never ends and
  \<open>addWatermark\<close> does not return.
\<close>

theorem empty_text_never_returns:
  "measureText example_backend (Font (fontSize empty_text_options) ''Arial'')
     (wtext empty_text_options) = 0 \<and>
   rotatedWidth example_backend 0 empty_text_options
     + rotatedHeight example_backend 0 empty_text_options = 40 \<and>
   cellWidth example_backend 0 empty_text_options = 0 \<and>
   cols example_backend 800 0 empty_text_options = PosInf \<and>
   rows example_backend 600 0 empty_text_options = Num 17 \<and>
   render example_backend (example_image 800 600) empty_text_options = None \<and>
   addWatermark example_backend (example_image 800 600) empty_text_options None = None"
proof -
  let ?o = "empty_text_options"
  have c: "cols example_backend 800 0 ?o = PosInf"
    by (simp add: cols_def empty_text_cells inf_of_sign_def)
  have r: "rows example_backend 600 0 ?o = Num 17"
    by (simp add: rows_def empty_text_cells example_arith)
  have "addWatermark example_backend (example_image 800 600) ?o None = None"
    by (simp add: addWatermark_runs example_arith empty_text_render)
  with c r show ?thesis by (simp add: empty_text_cells empty_text_render)
qed

text \<open>
  C3 (tile-count cap), as the code has it. \<open>addWatermark\<close> has no cap on the grid and
  no \<open>DegenerateTilingError\<close>: in tile mode, whenever the two cell sizes are nonzero
  and \<open>cols\<close> and \<open>rows\<close> do not exceed \<open>2 ^ 53\<close>, it performs exactly
  \<open>(rows + 1) * (cols + 1)\<close> stamps (none when a factor is not positive), however many
  that is, and hands the canvas to the encoder; it never rejects with a
  \<open>DegenerateTilingError\<close>.
\<close>

theorem tile_count_uncapped:
  assumes "mode options = Tile"
    and "tw = measureText be (Font (fontSize options) ''Arial'') (wtext options)"
    and "cellWidth be tw options \<noteq> 0"
    and "cellHeight be tw options \<noteq> 0"
    and "ints_exact (fl be)"
    and "\<bar>\<lceil>fl be (real (width img) / cellWidth be tw options)\<rceil> + 2\<bar> \<le> 2 ^ 53"
    and "\<bar>\<lceil>fl be (real (height img) / cellHeight be tw options)\<rceil> + 2\<bar> \<le> 2 ^ 53"
  shows "(\<exists>cv. render be img options = Some cv \<and>
           stamp_count cv =
             nat (\<lceil>fl be (real (height img) / cellHeight be tw options)\<rceil> + 3) *
             nat (\<lceil>fl be (real (width img) / cellWidth be tw options)\<rceil> + 3) \<and>
           (has_context be \<and> drawImage_throws be img = None \<longrightarrow>
              addWatermark be img options exportOptions =
                Some (settle (encode be exportOptions cv)))) \<and>
         addWatermark be img options exportOptions \<noteq> Some (Rejected DegenerateTilingError)"
proof -
  have ok: "grid_ok be (width img) (height img) tw options"
    using assms(3-7) by (simp add: grid_ok_def grid_cols_def grid_rows_def)
  have r: "grid_rows be (height img) tw options + 1 =
      \<lceil>fl be (real (height img) / cellHeight be tw options)\<rceil> + 3"
    and c: "grid_cols be (width img) tw options + 1 =
      \<lceil>fl be (real (width img) / cellWidth be tw options)\<rceil> + 3"
    by (simp_all add: grid_rows_def grid_cols_def)
  have typed: "addWatermark be img options exportOptions \<noteq> Some (Rejected DegenerateTilingError)"
    by (auto simp: addWatermark_def settle_typed split: option.splits)
  show ?thesis
    using render_tile_finite [OF assms(1,2) ok] typed
    by (simp add: stamp_count_tile r c addWatermark_runs)
qed

theorem tile_count_uncapped_witness:
  "mode example_options = Tile \<and>
   cellWidth example_backend 120 example_options \<noteq> 0 \<and>
   cellHeight example_backend 120 example_options \<noteq> 0 \<and>
   ints_exact (fl example_backend) \<and>
   has_context example_backend \<and>
   drawImage_throws example_backend (example_image 800 600) = None \<and>
   (\<exists>cv. render example_backend (example_image 800 600) example_options = Some cv \<and>
      stamp_count cv = 72 \<and>
      addWatermark example_backend (example_image 800 600) example_options None =
        Some (settle (encode example_backend None cv)))"
proof -
  have m: "mode example_options = Tile" by (simp add: example_options_def)
  have tw: "(120::real) =
      measureText example_backend (Font (fontSize example_options) ''Arial'') (wtext example_options)"
    by (simp add: example_tw)
  have cw: "cellWidth example_backend 120 example_options \<noteq> 0"
    and ch: "cellHeight example_backend 120 example_options \<noteq> 0"
    by (simp_all add: example_cells)
  have ex: "ints_exact (fl example_backend)" by (rule example_arith)
  have nc: "\<bar>\<lceil>fl example_backend (real (width (example_image 800 600))
        / cellWidth example_backend 120 example_options)\<rceil> + 2\<bar> \<le> 2 ^ 53"
    and nr: "\<bar>\<lceil>fl example_backend (real (height (example_image 800 600))
        / cellHeight example_backend 120 example_options)\<rceil> + 2\<bar> \<le> 2 ^ 53"
    by (simp_all add: example_cells example_arith example_image_def)
  from tile_count_uncapped [OF m tw cw ch ex nc nr, of None] m cw ch ex
  show ?thesis by (simp add: example_cells example_arith example_image_def)
qed

text \<open>
  The claim C3 as stated fails: the text \<open>A\<close> at 1px, unrotated, with spacing 0 on an
  8000 by 6000 image gives cells of half a pixel by one pixel, and \<open>addWatermark\<close>
  performs 96066009 stamps and resolves.
\<close>

theorem tile_count_cap_counterexample:
  "map_option stamp_count (render example_backend (example_image 8000 6000) dense_options)
     = Some 96066009 \<and>
   map_option is_resolved
     (addWatermark example_backend (example_image 8000 6000) dense_options None) = Some True"
proof -
  have m: "mode dense_options = Tile" by (simp add: dense_options_def example_options_def)
  have tw: "1 / 2 = measureText example_backend (Font (fontSize dense_options) ''Arial'')
      (wtext dense_options)"
    by (simp add: dense_cells)
  have ok: "grid_ok example_backend (width (example_image 8000 6000))
      (height (example_image 8000 6000)) (1 / 2) dense_options"
    using dense_grid(3) by (simp add: example_image_def)
  note run = render_tile_finite [OF m tw ok]
  have count: "map_option stamp_count
      (render example_backend (example_image 8000 6000) dense_options) = Some 96066009"
    unfolding run by (simp add: stamp_count_tile dense_grid example_image_def)
  have "is_resolved (settle (encode example_backend None cv))" for cv
    by (simp add: encode_def export_format_def settle_def example_backend_def)
  then have "map_option is_resolved
     (addWatermark example_backend (example_image 8000 6000) dense_options None) = Some True"
    unfolding addWatermark_runs [OF example_arith(5,6)] run by simp
  with count show ?thesis by simp
qed

text \<open>
  C4 (coverage at extreme offsets). The claim asks that the grid still covers the
  canvas when the offsets are at 50 percent. In the code it does not: for \<open>SAMPLE\<close>
  at 40px (120 wide), unrotated, spacing 0, \<open>offsetX = offsetY = 50\<close> on a canvas 1000
  wide, the cells are 120 wide, \<open>cols\<close> is 11 and \<open>startX\<close> is 400, so the first
  column (\<open>col = -1\<close>) starts at 280 and its stamp is centred at 340: the strip from
  0 to 280 gets no tile.
\<close>

theorem offset_leaves_left_strip_untiled:
  "offsetX shifted_options = 50 \<and>
   offsetY shifted_options = 50 \<and>
   rotatedWidth example_backend 120 shifted_options = 120 \<and>
   cellWidth example_backend 120 shifted_options = 120 \<and>
   cols example_backend 1000 120 shifted_options = Num 11 \<and>
   startX example_backend 1000 120 shifted_options = Num 400 \<and>
   jadd (startX example_backend 1000 120 shifted_options)
        (jmul (Num (- 1)) (Num (cellWidth example_backend 120 shifted_options))) = Num 280 \<and>
   centerX example_backend 1000 120 shifted_options (- 1) = Num 340"
proof -
  have rw: "rotatedWidth example_backend 120 shifted_options = 120"
    by (simp add: rotatedWidth_def angle_def example_arith shifted_options_def
        example_options_def)
  have cw: "cellWidth example_backend 120 shifted_options = 120"
    by (simp add: cellWidth_def spacingGap_def rw example_arith) (simp add: shifted_options_def)
  have c: "cols example_backend 1000 120 shifted_options = Num 11"
    by (simp add: cols_def cw example_arith)
  have sx: "startX example_backend 1000 120 shifted_options = Num 400"
    by (simp add: startX_def c cw jsub_def offsetXPixels_def)
      (simp add: shifted_options_def)
  have cx: "centerX example_backend 1000 120 shifted_options (- 1) = Num 340"
    by (simp add: centerX_def sx cw rw)
  have "offsetX shifted_options = 50" and "offsetY shifted_options = 50"
    by (simp_all add: shifted_options_def)
  with rw cw c sx cx show ?thesis by simp
qed



text \<open>
  C6 (dimension preservation), as the code has it. Whatever the image, the watermark
  options and the export options, every canvas that \<open>addWatermark\<close> renders has the
  width and the height of the image, and so has the canvas behind every data URL it
  resolves with. A canvas is rendered in single mode always, and in tile mode whenever
  the two cell sizes are nonzero and \<open>cols\<close> and \<open>rows\<close> do not exceed \<open>2 ^ 53\<close>.
\<close>

theorem output_has_input_dimensions:
  assumes "tw = measureText be (Font (fontSize options) ''Arial'') (wtext options)"
  shows "(\<forall>cv. render be img options = Some cv \<longrightarrow>
            canvas_width cv = width img \<and> canvas_height cv = height img) \<and>
         (mode options \<noteq> Tile \<longrightarrow>
            (\<exists>cv. render be img options = Some cv \<and>
                  canvas_width cv = width img \<and> canvas_height cv = height img)) \<and>
         (mode options = Tile \<and>
          cellWidth be tw options \<noteq> 0 \<and> cellHeight be tw options \<noteq> 0 \<and>
          ints_exact (fl be) \<and>
          \<bar>\<lceil>fl be (real (width img) / cellWidth be tw options)\<rceil> + 2\<bar> \<le> 2 ^ 53 \<and>
          \<bar>\<lceil>fl be (real (height img) / cellHeight be tw options)\<rceil> + 2\<bar> \<le> 2 ^ 53 \<longrightarrow>
            (\<exists>cv. render be img options = Some cv \<and>
                  canvas_width cv = width img \<and> canvas_height cv = height img)) \<and>
         (\<forall>url. addWatermark be img options exportOptions = Some (Resolved url) \<longrightarrow>
            (\<exists>cv. render be img options = Some cv \<and> encode be exportOptions cv = Inr url \<and>
                  canvas_width cv = width img \<and> canvas_height cv = height img))"
proof -
  have size: "canvas_width cv = width img \<and> canvas_height cv = height img"
    if "render be img options = Some cv" for cv
    using that by (rule render_size)
  have single: "\<exists>cv. render be img options = Some cv \<and>
                  canvas_width cv = width img \<and> canvas_height cv = height img"
    if "mode options \<noteq> Tile"
    using render_single [OF that, of be img] size by auto
  have tile: "\<exists>cv. render be img options = Some cv \<and>
                  canvas_width cv = width img \<and> canvas_height cv = height img"
    if "mode options = Tile \<and>
          cellWidth be tw options \<noteq> 0 \<and> cellHeight be tw options \<noteq> 0 \<and>
          ints_exact (fl be) \<and>
          \<bar>\<lceil>fl be (real (width img) / cellWidth be tw options)\<rceil> + 2\<bar> \<le> 2 ^ 53 \<and>
          \<bar>\<lceil>fl be (real (height img) / cellHeight be tw options)\<rceil> + 2\<bar> \<le> 2 ^ 53"
  proof -
    from that have ok: "grid_ok be (width img) (height img) tw options"
      by (simp add: grid_ok_def grid_cols_def grid_rows_def)
    from that have m: "mode options = Tile" by simp
    from render_tile_finite [OF m assms ok] size show ?thesis by auto
  qed
  have res: "\<exists>cv. render be img options = Some cv \<and> encode be exportOptions cv = Inr url \<and>
                  canvas_width cv = width img \<and> canvas_height cv = height img"
    if "addWatermark be img options exportOptions = Some (Resolved url)" for url
  proof -
    from that obtain cv where cv: "render be img options = Some cv"
      and s: "settle (encode be exportOptions cv) = Resolved url"
      by (auto simp: addWatermark_def split: if_splits option.splits)
    from s have "encode be exportOptions cv = Inr url"
      by (simp add: settle_def split: sum.splits)
    with cv size [OF cv] show ?thesis by blast
  qed
  from size single tile res show ?thesis by blast
qed

theorem output_has_input_dimensions_witness:
  "mode scenario_options \<noteq> Tile \<and>
   (\<exists>cv. render example_backend (example_image 800 600) scenario_options = Some cv \<and>
         canvas_width cv = 800 \<and> canvas_height cv = 600) \<and>
   mode example_options = Tile \<and>
   cellWidth example_backend 120 example_options \<noteq> 0 \<and>
   cellHeight example_backend 120 example_options \<noteq> 0 \<and>
   ints_exact (fl example_backend) \<and>
   (\<exists>cv. render example_backend (example_image 800 600) example_options = Some cv \<and>
         canvas_width cv = 800 \<and> canvas_height cv = 600) \<and>
   (\<exists>url cv. addWatermark example_backend (example_image 800 600) example_options None
                = Some (Resolved url) \<and>
         render example_backend (example_image 800 600) example_options = Some cv \<and>
         canvas_width cv = 800 \<and> canvas_height cv = 600)"
proof -
  have s: "mode scenario_options \<noteq> Tile" by (simp add: scenario_options_def)
  have m: "mode example_options = Tile" by (simp add: example_options_def)
  have tw: "(120::real) =
      measureText example_backend (Font (fontSize example_options) ''Arial'') (wtext example_options)"
    by (simp add: example_tw)
  have cw: "cellWidth example_backend 120 example_options \<noteq> 0"
    and ch: "cellHeight example_backend 120 example_options \<noteq> 0"
    by (simp_all add: example_cells)
  have ex: "ints_exact (fl example_backend)" by (rule example_arith)
  have 1: "\<exists>cv. render example_backend (example_image 800 600) scenario_options = Some cv \<and>
         canvas_width cv = 800 \<and> canvas_height cv = 600"
    using output_has_input_dimensions
      [where be = example_backend and options = scenario_options
         and img = "example_image 800 600" and exportOptions = None, OF refl] s
    by (simp add: example_image_def)
  note dims = output_has_input_dimensions
      [where img = "example_image 800 600" and exportOptions = None, OF tw]
  have 2: "\<exists>cv. render example_backend (example_image 800 600) example_options = Some cv \<and>
         canvas_width cv = 800 \<and> canvas_height cv = 600"
    using dims m cw ch ex by (simp add: example_cells example_arith example_image_def)
  then obtain cv where cv: "render example_backend (example_image 800 600) example_options = Some cv"
    by blast
  have "encode example_backend None cv = Inr ''data:image/png''"
    by (simp add: encode_def export_format_def mimeType_def example_backend_def)
  then have "addWatermark example_backend (example_image 800 600) example_options None =
      Some (Resolved ''data:image/png'')"
    by (simp add: addWatermark_runs example_arith cv settle_def)
  with dims have 3: "\<exists>url cv. addWatermark example_backend (example_image 800 600) example_options None
                = Some (Resolved url) \<and>
         render example_backend (example_image 800 600) example_options = Some cv \<and>
         canvas_width cv = 800 \<and> canvas_height cv = 600"
    by (auto simp: example_image_def)
  from s m cw ch ex 1 2 3 show ?thesis by blast
qed

text \<open>
  The claim C6 as stated, for every input in both modes, fails: for the empty text at
  40px, unrotated, in tile mode on an 800 by 600 image, no output surface is produced,
  so there is no width and no height to compare.
\<close>

theorem no_output_surface_counterexample:
  "map_option canvas_width
     (render example_backend (example_image 800 600) empty_text_options) = None \<and>
   map_option canvas_height
     (render example_backend (example_image 800 600) empty_text_options) = None"
  by (simp add: empty_text_render)

text \<open>
  C7 (single-mode placement). In single mode \<open>addWatermark\<close> paints the image and then
  the text once, at the anchor \<open>(x, y)\<close> that the specification gives for the position,
  shifted by the two offsets, under the rotation by \<open>rotation\<close> degrees about
  \<open>(x + textWidth / 2, y - textHeight / 2)\<close>. For an 800 by 600 image, 40px, centred,
  unrotated, without offsets, the anchor is within one pixel of
  \<open>((800 - textWidth) / 2, 320)\<close> and nothing is rotated.
\<close>

theorem single_mode_placement:
  assumes single: "mode options = Single"
    and tw: "tw = measureText be (Font (fontSize options) ''Arial'') (wtext options)"
    and xy: "xy = spec_shifted_anchor (position options) (real (width img)) (real (height img))
                    tw (fontSize options) (offsetX options) (offsetY options)"
  shows "\<exists>cv st. render be img options = Some cv \<and>
      paint cv = [DrawImage img 0 0 (state createCanvas),
                  FillText (wtext options) (fst xy) (snd xy) st] \<and>
      transform st = rotate_about (fst xy + tw / 2, snd xy - fontSize options / 2)
                       (rotation options * pi / 180) \<and>
      stamp_view (FillText (wtext options) (fst xy) (snd xy) st) =
        Some (spec_single_stamp (wtext options) xy tw (fontSize options) (rotation options)) \<and>
      (width img = 800 \<and> height img = 600 \<and> fontSize options = 40 \<and>
       position options = Center \<and> rotation options = 0 \<and>
       offsetX options = 0 \<and> offsetY options = 0 \<longrightarrow>
         \<bar>fst xy - (800 - tw) / 2\<bar> \<le> 1 \<and> \<bar>snd xy - 320\<bar> \<le> 1 \<and> transform st = identity)"
proof -
  let ?cv = "prepare img options"
  let ?st = "(state ?cv)\<lparr>transform :=
             rotate_about (fst xy + tw / 2, snd xy - fontSize options / 2)
                          (rotation options * pi / 180)\<rparr>"
  have "render be img options = Some (single_watermark tw options ?cv)"
    unfolding tw using single by (simp add: render_def Let_def prepare_simps)
  also have "single_watermark tw options ?cv =
      ?cv\<lparr>paint := paint ?cv @ [FillText (wtext options) (fst xy) (snd xy) ?st]\<rparr>"
    by (rule single_watermark_paint) (simp_all add: prepare_simps xy)
  finally have run: "render be img options =
      Some (?cv\<lparr>paint := paint ?cv @ [FillText (wtext options) (fst xy) (snd xy) ?st]\<rparr>)" .
  have view: "stamp_view (FillText (wtext options) (fst xy) (snd xy) ?st) =
      Some (spec_single_stamp (wtext options) xy tw (fontSize options) (rotation options))"
    by (simp add: spec_single_stamp_def)
  have scen: "\<bar>fst xy - (800 - tw) / 2\<bar> \<le> 1 \<and> \<bar>snd xy - 320\<bar> \<le> 1 \<and> transform ?st = identity"
    if "width img = 800 \<and> height img = 600 \<and> fontSize options = 40 \<and>
       position options = Center \<and> rotation options = 0 \<and>
       offsetX options = 0 \<and> offsetY options = 0"
    using that by (simp add: xy spec_shifted_anchor_def rotate_about_def identity_def)
  from run view scen show ?thesis
    by (intro exI [of _ "?cv\<lparr>paint := paint ?cv @ [FillText (wtext options) (fst xy) (snd xy) ?st]\<rparr>"]
        exI [of _ ?st]) (simp add: prepare_simps)
qed

theorem single_mode_placement_witness:
  "mode scenario_options = Single \<and>
   width (example_image 800 600) = 800 \<and> height (example_image 800 600) = 600 \<and>
   fontSize scenario_options = 40 \<and> position scenario_options = Center \<and>
   rotation scenario_options = 0 \<and> offsetX scenario_options = 0 \<and>
   offsetY scenario_options = 0 \<and>
   (\<exists>cv st. render example_backend (example_image 800 600) scenario_options = Some cv \<and>
      paint cv = [DrawImage (example_image 800 600) 0 0 (state createCanvas),
                  FillText ''SAMPLE'' 340 320 st] \<and>
      transform st = identity)"
proof -
  have m: "mode scenario_options = Single"
    by (simp add: scenario_options_def)
  have tw: "(120::real) =
      measureText example_backend (Font (fontSize scenario_options) ''Arial'')
        (wtext scenario_options)"
    by (simp add: scenario_options_def example_options_def example_backend_def)
  have xy: "((340::real), (320::real)) =
      spec_shifted_anchor (position scenario_options) (real (width (example_image 800 600)))
        (real (height (example_image 800 600))) 120 (fontSize scenario_options)
        (offsetX scenario_options) (offsetY scenario_options)"
    by (simp add: spec_shifted_anchor_def scenario_options_def example_options_def
        example_image_def)
  have sc: "width (example_image 800 600) = 800 \<and> height (example_image 800 600) = 600 \<and>
   fontSize scenario_options = 40 \<and> position scenario_options = Center \<and>
   rotation scenario_options = 0 \<and> offsetX scenario_options = 0 \<and>
   offsetY scenario_options = 0"
    by (simp add: scenario_options_def example_options_def example_image_def)
  from single_mode_placement [OF m tw xy] sc
  obtain cv st where
    "render example_backend (example_image 800 600) scenario_options = Some cv"
    "paint cv = [DrawImage (example_image 800 600) 0 0 (state createCanvas),
                  FillText (wtext scenario_options) 340 320 st]"
    "transform st = identity"
    by auto
  moreover have "wtext scenario_options = ''SAMPLE''"
    by (simp add: scenario_options_def example_options_def)
  ultimately show ?thesis using m sc by auto
qed

text \<open>
  C9 (HEIC handling of the decoder). \<open>loadImage\<close> tests for HEIC exactly as specified:
  the MIME type is \<open>image/heic\<close> or \<open>image/heif\<close>, or the name ends in \<open>.heic\<close> or
  \<open>.heif\<close> in any case of the letters. For such a file its first call is the
  \<open>heic2any\<close> conversion of the file to \<open>image/jpeg\<close> at quality 0.95, made once,
  and what is read and decoded is the converted blob. For any other file it makes no
  conversion and hands the file itself to the reading and decoding step.
\<close>

theorem loadImage_converts_exactly_heic:
  "isHeic file = spec_is_heic file \<and>
   (spec_is_heic file \<longrightarrow>
      (\<exists>rest. fst (loadImage env file) =
                 Heic2any \<lparr>blob = file, toType = ''image/jpeg'', conversion_quality = 0.95\<rparr> # rest \<and>
               \<not> list_ex is_heic2any rest) \<and>
      (\<forall>b. heic2any env \<lparr>blob = file, toType = ''image/jpeg'', conversion_quality = 0.95\<rparr>
              = Some (OneBlob b) \<longrightarrow>
           snd (loadImage env file) = snd (read_and_decode env (ABlob b)))) \<and>
   (\<not> spec_is_heic file \<longrightarrow>
      loadImage env file = read_and_decode env (AFile file) \<and>
      \<not> list_ex is_heic2any (fst (loadImage env file)) \<and>
      (\<exists>rest. fst (loadImage env file) = ReadAsDataURL (AFile file) # rest))"
proof -
  have a: "(\<exists>rest. fst (loadImage env file) =
                 Heic2any \<lparr>blob = file, toType = ''image/jpeg'', conversion_quality = 0.95\<rparr> # rest \<and>
               \<not> list_ex is_heic2any rest)" if "isHeic file"
    using loadImage_heic [OF that, of env] by (simp add: jpeg_request_def)
  have b: "snd (loadImage env file) = snd (read_and_decode env (ABlob b))"
    if "isHeic file"
      and "heic2any env \<lparr>blob = file, toType = ''image/jpeg'', conversion_quality = 0.95\<rparr>
              = Some (OneBlob b)" for b
    using that by (simp add: loadImage_def jpeg_request_def after_calls_def)
  have c: "loadImage env file = read_and_decode env (AFile file)" if "\<not> isHeic file"
    using that by (simp add: loadImage_def)
  have d: "\<not> list_ex is_heic2any (fst (loadImage env file)) \<and>
      (\<exists>rest. fst (loadImage env file) = ReadAsDataURL (AFile file) # rest)" if "\<not> isHeic file"
    using read_and_decode_first [of env "AFile file"]
      read_and_decode_no_conversion [of env "AFile file"] c [OF that] by simp
  from a b c d show ?thesis
    unfolding isHeic_spec [symmetric] by blast
qed

theorem loadImage_converts_exactly_heic_witness:
  "spec_is_heic heic_file \<and>
   fst (loadImage example_loader heic_file) =
     [Heic2any \<lparr>blob = heic_file, toType = ''image/jpeg'', conversion_quality = 0.95\<rparr>,
      ReadAsDataURL (ABlob \<lparr>blob_type = ''image/jpeg'', blob_bytes = ''ftypheic''\<rparr>),
      SetSrc ''ftypheic''] \<and>
   \<not> spec_is_heic png_file \<and>
   loadImage example_loader png_file =
     ([ReadAsDataURL (AFile png_file), SetSrc ''PNG''], Inr (example_image 800 600))"
proof -
  have h: "spec_is_heic heic_file"
    using loadImage_converts_exactly_heic [of heic_file example_loader] heic_file_isHeic by simp
  have p: "\<not> spec_is_heic png_file"
    using loadImage_converts_exactly_heic [of png_file example_loader] png_file_not_isHeic by simp
  have "loadImage example_loader png_file = read_and_decode example_loader (AFile png_file)"
    using loadImage_converts_exactly_heic [of png_file example_loader] p by simp
  then have 2: "loadImage example_loader png_file =
     ([ReadAsDataURL (AFile png_file), SetSrc ''PNG''], Inr (example_image 800 600))"
    by (simp add: read_and_decode_def example_loader_def png_file_def)
  have 1: "fst (loadImage example_loader heic_file) =
     [Heic2any \<lparr>blob = heic_file, toType = ''image/jpeg'', conversion_quality = 0.95\<rparr>,
      ReadAsDataURL (ABlob \<lparr>blob_type = ''image/jpeg'', blob_bytes = ''ftypheic''\<rparr>),
      SetSrc ''ftypheic'']"
    using heic_file_isHeic
    by (simp add: loadImage_def jpeg_request_def example_loader_def after_calls_def
        read_and_decode_def) (simp add: heic_file_def)
  from h p 1 2 show ?thesis by simp
qed

text \<open>
  C10 (error signalling), as the code has it. \<open>addWatermark\<close> never calls \<open>reject\<close>
  and has no typed errors: it never rejects with an \<open>EncodingError\<close> or a
  \<open>DegenerateTilingError\<close>. With a context and an image that \<open>drawImage\<close> accepts, it
  settles as the encoder decides for the rendered canvas (resolved with the data URL,
  or rejected with what \<open>toDataURL\<close> throws), and it does not settle when the drawing
  does not return. A resolution always carries the data URL of the rendered canvas,
  and a rejection always carries an exception thrown by the platform: the
  \<open>TypeError\<close> of a missing context, what \<open>drawImage\<close> throws, or what \<open>toDataURL\<close>
  throws.
\<close>

theorem addWatermark_only_resolves:
  "addWatermark be img options exportOptions \<noteq> Some (Rejected EncodingError) \<and>
   addWatermark be img options exportOptions \<noteq> Some (Rejected DegenerateTilingError) \<and>
   (has_context be \<and> drawImage_throws be img = None \<longrightarrow>
      (\<forall>cv. render be img options = Some cv \<longrightarrow>
         addWatermark be img options exportOptions = Some (settle (encode be exportOptions cv))) \<and>
      (render be img options = None \<longrightarrow> addWatermark be img options exportOptions = None)) \<and>
   (\<forall>url. addWatermark be img options exportOptions = Some (Resolved url) \<longrightarrow>
      (\<exists>cv. render be img options = Some cv \<and> encode be exportOptions cv = Inr url)) \<and>
   (\<forall>r. addWatermark be img options exportOptions = Some (Rejected r) \<longrightarrow>
      (\<exists>e. r = Thrown e \<and>
         (\<not> has_context be \<and> e = JsTypeError \<or>
          has_context be \<and> drawImage_throws be img = Some e \<or>
          (\<exists>cv. render be img options = Some cv \<and> encode be exportOptions cv = Inl e))))"
proof -
  have typed: "addWatermark be img options exportOptions \<noteq> Some (Rejected EncodingError)"
    "addWatermark be img options exportOptions \<noteq> Some (Rejected DegenerateTilingError)"
    by (auto simp: addWatermark_def settle_typed split: option.splits)
  have run: "(\<forall>cv. render be img options = Some cv \<longrightarrow>
         addWatermark be img options exportOptions = Some (settle (encode be exportOptions cv))) \<and>
      (render be img options = None \<longrightarrow> addWatermark be img options exportOptions = None)"
    if "has_context be \<and> drawImage_throws be img = None"
    using that by (simp add: addWatermark_runs)
  have res: "\<exists>cv. render be img options = Some cv \<and> encode be exportOptions cv = Inr url"
    if "addWatermark be img options exportOptions = Some (Resolved url)" for url
  proof -
    from that obtain cv where cv: "render be img options = Some cv"
      and s: "settle (encode be exportOptions cv) = Resolved url"
      by (auto simp: addWatermark_def split: if_splits option.splits)
    from s have "encode be exportOptions cv = Inr url"
      by (simp add: settle_def split: sum.splits)
    with cv show ?thesis by blast
  qed
  have rej: "\<exists>e. r = Thrown e \<and>
         (\<not> has_context be \<and> e = JsTypeError \<or>
          has_context be \<and> drawImage_throws be img = Some e \<or>
          (\<exists>cv. render be img options = Some cv \<and> encode be exportOptions cv = Inl e))"
    if "addWatermark be img options exportOptions = Some (Rejected r)" for r
  proof (cases "has_context be")
    case False
    with that show ?thesis by (auto simp: addWatermark_def)
  next
    case ctx: True
    show ?thesis
    proof (cases "drawImage_throws be img")
      case (Some e)
      with that ctx show ?thesis by (auto simp: addWatermark_def)
    next
      case None
      with that ctx obtain cv where cv: "render be img options = Some cv"
        and s: "settle (encode be exportOptions cv) = Rejected r"
        by (auto simp: addWatermark_def)
      from s obtain e where "encode be exportOptions cv = Inl e" and "r = Thrown e"
        by (cases "encode be exportOptions cv") (auto simp: settle_def)
      with cv show ?thesis by blast
    qed
  qed
  from typed run res rej show ?thesis by blast
qed

theorem addWatermark_only_resolves_witness:
  "has_context example_backend \<and>
   drawImage_throws example_backend (example_image 800 600) = None \<and>
   (\<exists>cv. render example_backend (example_image 800 600) example_options = Some cv \<and>
      encode example_backend None cv = Inr ''data:image/png'') \<and>
   addWatermark example_backend (example_image 800 600) example_options None =
     Some (Resolved ''data:image/png'') \<and>
   addWatermark example_backend (example_image 800 600) example_options None
     \<noteq> Some (Rejected DegenerateTilingError)"
proof -
  from example_render_returns obtain cv where
    cv: "render example_backend (example_image 800 600) example_options = Some cv" by blast
  have enc: "encode example_backend None cv = Inr ''data:image/png''"
    by (simp add: encode_def export_format_def mimeType_def example_backend_def)
  have ctx: "has_context example_backend \<and>
      drawImage_throws example_backend (example_image 800 600) = None"
    by (simp add: example_arith)
  note thm1 = addWatermark_only_resolves
    [of example_backend "example_image 800 600" example_options None]
  from thm1 ctx cv have "addWatermark example_backend (example_image 800 600) example_options None =
      Some (settle (encode example_backend None cv))"
    by blast
  then have res: "addWatermark example_backend (example_image 800 600) example_options None =
     Some (Resolved ''data:image/png'')"
    by (simp add: enc settle_def)
  from thm1 have "addWatermark example_backend (example_image 800 600) example_options None
     \<noteq> Some (Rejected DegenerateTilingError)"
    by blast
  with ctx cv enc res show ?thesis by blast
qed

text \<open>
  The claim C10 as stated fails twice. With an encoder that throws (a tainted canvas
  gives a \<open>SecurityError\<close>) the promise is rejected, so a failure is signalled through
  the interface; and for the empty text at 40px, unrotated, in tile mode the promise
  is never settled, so it is not resolved for every combination of arguments.
\<close>

theorem addWatermark_rejects_counterexample:
  "addWatermark tainted_backend (example_image 800 600) scenario_options None
     = Some (Rejected (Thrown SecurityError)) \<and>
   addWatermark example_backend (example_image 800 600) empty_text_options None = None"
proof -
  have "has_context tainted_backend"
    and "drawImage_throws tainted_backend (example_image 800 600) = None"
    by (simp_all add: tainted_backend_def example_backend_def)
  moreover have "mode scenario_options \<noteq> Tile" by (simp add: scenario_options_def)
  ultimately have "addWatermark tainted_backend (example_image 800 600) scenario_options None
     = Some (Rejected (Thrown SecurityError))"
    by (simp add: addWatermark_runs render_single encode_def settle_def tainted_backend_def)
  moreover have "addWatermark example_backend (example_image 800 600) empty_text_options None
      = None"
    by (simp add: addWatermark_runs example_arith empty_text_render)
  ultimately show ?thesis by simp
qed

end
